theory Spec2Isabelle
  imports Complex_Main
begin

unbundle bit_operations_syntax

section \<open>Numbers\<close>

text \<open>
  The C type \<open>dbl\<close> (\<open>double\<close>) is read as a real number and \<open>complex\<close>
  (\<open>double complex\<close>) as a complex number: rounding and overflow are left out.
  IEEE division by zero does not trap, it yields an infinity or a NaN, and every sum
  or product computed from such a value is again an infinity or a NaN. The embedding
  keeps that visible: a computed value is either \<open>Fin x\<close>, a number, or \<open>NonFin\<close>,
  some value that is not a finite number.
\<close>

datatype 'a ieee = Fin 'a | NonFin

type_synonym dbl = "real ieee"
type_synonym cpx = "complex ieee"

instantiation ieee :: (plus) plus
begin
definition plus_ieee :: "'a ieee \<Rightarrow> 'a ieee \<Rightarrow> 'a ieee" where
  "plus_ieee a b = (case a of Fin x \<Rightarrow> (case b of Fin y \<Rightarrow> Fin (x + y) | NonFin \<Rightarrow> NonFin)
                            | NonFin \<Rightarrow> NonFin)"
instance ..
end

instantiation ieee :: (times) times
begin
definition times_ieee :: "'a ieee \<Rightarrow> 'a ieee \<Rightarrow> 'a ieee" where
  "times_ieee a b = (case a of Fin x \<Rightarrow> (case b of Fin y \<Rightarrow> Fin (x * y) | NonFin \<Rightarrow> NonFin)
                             | NonFin \<Rightarrow> NonFin)"
instance ..
end

instantiation ieee :: (minus) minus
begin
definition minus_ieee :: "'a ieee \<Rightarrow> 'a ieee \<Rightarrow> 'a ieee" where
  "minus_ieee a b = (case a of Fin x \<Rightarrow> (case b of Fin y \<Rightarrow> Fin (x - y) | NonFin \<Rightarrow> NonFin)
                             | NonFin \<Rightarrow> NonFin)"
instance ..
end

instantiation ieee :: (uminus) uminus
begin
definition uminus_ieee :: "'a ieee \<Rightarrow> 'a ieee" where
  "uminus_ieee a = (case a of Fin x \<Rightarrow> Fin (- x) | NonFin \<Rightarrow> NonFin)"
instance ..
end

text \<open>
  The quotient \<open>a / b\<close>: not a finite number when the divisor is zero. In
  \<open>assemble_emwave\<close> the divisors are inputs and whatever is computed from a quotient
  is a sum or a product, so that \<open>NonFin\<close> is exactly the IEEE outcome, an infinity or
  a NaN. In \<open>apply_em_farfield_direct\<close> quotients are divided again, and IEEE gives 0
  for a finite number over an infinity: there \<open>NonFin\<close> only marks a value computed
  after some divisor vanished.
\<close>

definition idiv :: "'a::field ieee \<Rightarrow> 'a ieee \<Rightarrow> 'a ieee" where
  "idiv a b = (case a of Fin x \<Rightarrow> (case b of Fin y \<Rightarrow> (if y = 0 then NonFin else Fin (x / y))
                                        | NonFin \<Rightarrow> NonFin)
                       | NonFin \<Rightarrow> NonFin)"

text \<open>A function of one argument (\<open>csqrt\<close>, \<open>creal\<close>, \<open>cimag\<close>) applied to a computed value.\<close>

definition lift1 :: "('a \<Rightarrow> 'b) \<Rightarrow> 'a ieee \<Rightarrow> 'b ieee" where
  "lift1 f a = (case a of Fin x \<Rightarrow> Fin (f x) | NonFin \<Rightarrow> NonFin)"

section \<open>Loops\<close>

text \<open>\<open>for (i = 0; i < n; i++) body\<close>, on a state that the body updates.\<close>

definition for_loop :: "nat \<Rightarrow> (nat \<Rightarrow> 's \<Rightarrow> 's) \<Rightarrow> 's \<Rightarrow> 's" where
  "for_loop n body s = fold body [0..<n] s"

section \<open>Algebra utilities\<close>

text \<open>
  Modelled from the spec: the constant \<open>DIM\<close> of a header that is not part of the
  source at hand. The spec fixes the dimension at 3.
\<close>

definition DIM :: nat where
  "DIM = 3"

text \<open>
  Modelled from the spec: \<open>permute\<close>, a function of a file that is not part of the
  source at hand. By the spec the permutation symbol is \<open>+1\<close> for the even
  permutations of \<open>(0,1,2)\<close>, \<open>-1\<close> for the odd ones and \<open>0\<close> if any index
  repeats.
\<close>

definition permute :: "nat \<Rightarrow> nat \<Rightarrow> nat \<Rightarrow> int" where
  "permute i j k =
     (if (i = 0 \<and> j = 1 \<and> k = 2) \<or> (i = 1 \<and> j = 2 \<and> k = 0) \<or> (i = 2 \<and> j = 0 \<and> k = 1) then 1
      else if (i = 0 \<and> j = 2 \<and> k = 1) \<or> (i = 2 \<and> j = 1 \<and> k = 0) \<or> (i = 1 \<and> j = 0 \<and> k = 2) then - 1
      else 0)"

text \<open>
  Modelled from the spec: \<open>delta\<close>, a macro of a header that is not part of the source
  at hand. By the spec the Kronecker delta is 1 on equal indices and 0 otherwise.
\<close>

definition delta :: "nat \<Rightarrow> nat \<Rightarrow> int" where
  "delta m n = (if m = n then 1 else 0)"

subsection \<open>complex_cross_vectors\<close>

text \<open>
  An array of \<open>complex\<close> is a function from the index to the element. The output array
  \<open>v2\<close> is a buffer of its own: \<open>memset\<close> clears its first \<open>DIM\<close> elements, the
  triple loop accumulates into them, and elements from \<open>DIM\<close> on are not touched.
\<close>

definition memset_zero :: "(nat \<Rightarrow> complex) \<Rightarrow> (nat \<Rightarrow> complex)" where
  "memset_zero v2 = (\<lambda>k. if k < DIM then 0 else v2 k)"

definition complex_cross_vectors ::
  "(nat \<Rightarrow> complex) \<Rightarrow> (nat \<Rightarrow> complex) \<Rightarrow> (nat \<Rightarrow> complex) \<Rightarrow> (nat \<Rightarrow> complex)" where
  "complex_cross_vectors v0 v1 v2 =
     for_loop DIM (\<lambda>i.
       for_loop DIM (\<lambda>j.
         for_loop DIM (\<lambda>k v. v(k := v k + of_int (permute i j k) * v0 i * v1 j))))
       (memset_zero v2)"

section \<open>The program's global state\<close>

text \<open>
  Both assembly routines read the solver's global structures. Each is a record of the
  fields that \<open>mm_fill_em.c\<close> reads; an array is a function from its index. Variable and
  equation identifiers are C \<open>int\<close>s, loop counters and counts are naturals.
\<close>

record Problem_Description =
  Num_Dim :: nat
  pd_e :: "int \<Rightarrow> int"
  pd_v :: "int \<Rightarrow> int"
  etm :: "int \<Rightarrow> nat \<Rightarrow> real"
  Num_Species_Eqn :: nat

record Uniform_Problem_Description =
  Acoustic_Frequency :: real
  ep :: "int \<Rightarrow> int"
  vp :: "int \<Rightarrow> int"

record Basis_Functions =
  phi :: "nat \<Rightarrow> real"
  grad_phi :: "nat \<Rightarrow> nat \<Rightarrow> real"
  detJ :: real
  d_det_J_dm :: "nat \<Rightarrow> nat \<Rightarrow> real"
  d_grad_phi_dmesh :: "nat \<Rightarrow> nat \<Rightarrow> nat \<Rightarrow> nat \<Rightarrow> real"

record Field_Variables =
  wt :: real
  h3 :: real
  dh3dq :: "nat \<Rightarrow> real"
  em_er :: "nat \<Rightarrow> real"
  em_ei :: "nat \<Rightarrow> real"
  em_hr :: "nat \<Rightarrow> real"
  em_hi :: "nat \<Rightarrow> real"
  snormal :: "nat \<Rightarrow> real"

text \<open>
  \<open>CONDUCTIVITY_DEPENDENCE_STRUCT\<close>: the sensitivities of a material property to the
  temperature dofs (\<open>T[j]\<close>), the mesh dofs (\<open>X[b][j]\<close>) and the species dofs
  (\<open>C[w][j]\<close>).
\<close>

record CONDUCTIVITY_DEPENDENCE_STRUCT =
  d_T :: "nat \<Rightarrow> real"
  d_X :: "nat \<Rightarrow> nat \<Rightarrow> real"
  d_C :: "nat \<Rightarrow> nat \<Rightarrow> real"

text \<open>
  The routines \<open>refractive_index\<close>, \<open>extinction_index\<close> and \<open>xfem_dof_state\<close>
  belong to other files: they are taken as they are called. The first two map the time
  to the property value and the sensitivities they store through their first argument.
  \<open>xfem_dof_state\<close> is called for a dof \<open>i\<close> of an equation and sets
  \<open>xfem_active\<close> and \<open>extended_dof\<close>, returned here in this order;
  \<open>xfem_present\<close> is \<open>xfem != NULL\<close>. \<open>VIM\<close> is a global of the solver.
\<close>

record globals =
  pd :: Problem_Description
  upd :: Uniform_Problem_Description
  dof :: "int \<Rightarrow> nat"
  bf :: "int \<Rightarrow> Basis_Functions"
  fv :: Field_Variables
  permittivity :: real
  Assemble_Residual :: bool
  Assemble_Jacobian :: bool
  VIM :: nat
  refractive_index :: "real \<Rightarrow> real \<times> CONDUCTIVITY_DEPENDENCE_STRUCT"
  extinction_index :: "real \<Rightarrow> real \<times> CONDUCTIVITY_DEPENDENCE_STRUCT"
  xfem_present :: bool
  xfem_dof_state :: "int \<Rightarrow> nat \<Rightarrow> bool \<times> bool"

text \<open>
  The constants that \<open>mm_fill_em.c\<close> takes from headers which are not part of the
  source at hand. Their values are parameters of the embedding.
\<close>

record header_consts =
  T_ADVECTION :: int
  T_DIFFUSION :: int
  LOG2_ADVECTION :: nat
  LOG2_DIFFUSION :: nat
  EM_E1_REAL :: int
  EM_E2_REAL :: int
  EM_E3_REAL :: int
  EM_E1_IMAG :: int
  EM_E2_IMAG :: int
  EM_E3_IMAG :: int
  EM_H1_REAL :: int
  EM_H2_REAL :: int
  EM_H3_REAL :: int
  EM_H1_IMAG :: int
  EM_H2_IMAG :: int
  EM_H3_IMAG :: int
  TEMPERATURE :: int
  MESH_DISPLACEMENT1 :: int
  MASS_FRACTION :: int
  MAX_PROB_VAR :: int
  EM_ER_FARFIELD_DIRECT_BC :: int
  EM_EI_FARFIELD_DIRECT_BC :: int
  EM_HR_FARFIELD_DIRECT_BC :: int
  EM_HI_FARFIELD_DIRECT_BC :: int

section \<open>Complex permittivity and impedance\<close>

text \<open>The local \<open>dbl mag_permeability=1.4e-07\<close> of both functions.\<close>

definition mag_permeability :: real where
  "mag_permeability = 14 / 10 ^ 8"

text \<open>
  \<open>cpx_refractive_index = n + _Complex_I*k\<close>,
  \<open>cpx_rel_permittivity = SQUARE(cpx_refractive_index)\<close>,
  \<open>cpx_permittivity = cpx_rel_permittivity*mp->permittivity\<close>: the same three
  statements in \<open>assemble_emwave\<close> and, twice, in \<open>apply_em_farfield_direct\<close>.
  \<open>SQUARE\<close> is a macro of a header that is not part of the source at hand; by the
  spec it squares its argument.
\<close>

definition cpx_permittivity :: "real \<Rightarrow> real \<Rightarrow> real \<Rightarrow> complex" where
  "cpx_permittivity n k mp_permittivity =
     (let cpx_refractive_index = of_real n + \<i> * of_real k;
          cpx_rel_permittivity = cpx_refractive_index * cpx_refractive_index
      in cpx_rel_permittivity * of_real mp_permittivity)"

text \<open>
  \<open>impedance = csqrt(mag_permeability/cpx_permittivity)\<close>. The C function \<open>csqrt\<close>
  and the HOL function of the same name both take the principal square root.
\<close>

definition impedance :: "complex \<Rightarrow> cpx" where
  "impedance eps = lift1 csqrt (idiv (Fin (of_real mag_permeability)) (Fin eps))"

section \<open>apply_em_farfield_direct\<close>

text \<open>
  A local that the function declares without an initialiser holds an indeterminate value
  until it is assigned. These initial contents are parameters of the embedding.
\<close>

record uninitialised =
  n2_0 :: real
  cpx_func_0 :: "nat \<Rightarrow> cpx"
  var_0 :: int
  real_0 :: real
  imag_0 :: real

text \<open>
  The locals computed up to the first \<open>switch\<close>. The statement \<open>ns = bc_data[0]\<close>
  stores the first boundary datum in \<open>ns\<close>, which the function never reads; \<open>n2\<close>
  is declared, never assigned and read for \<open>cpx_refractive_index2\<close>.
\<close>

record farfield_locals =
  ns :: real
  impedance1 :: cpx
  impedance2 :: cpx
  normal :: "nat \<Rightarrow> complex"
  E1 :: "nat \<Rightarrow> complex"
  Gamma :: cpx
  tau :: cpx
  incident :: "nat \<Rightarrow> complex"

definition farfield_setup :: "globals \<Rightarrow> uninitialised \<Rightarrow> (nat \<Rightarrow> real) \<Rightarrow> farfield_locals" where
  "farfield_setup g u bc_data =
     (let n1 = fst (refractive_index g 0);
          k1 = fst (extinction_index g 0);
          z1 = impedance (cpx_permittivity n1 k1 (permittivity g));
          n2 = n2_0 u;
          k2 = bc_data 1;
          z2 = impedance (cpx_permittivity n2 k2 (permittivity g))
      in \<lparr> ns = bc_data 0,
           impedance1 = z1,
           impedance2 = z2,
           normal = (\<lambda>i. of_real (snormal (fv g) i)),
           E1 = (\<lambda>i. of_real (em_er (fv g) i) + \<i> * of_real (em_ei (fv g) i)),
           Gamma = idiv (z2 - z1) (z2 + z1),
           tau = idiv (Fin 2 * z2) (z2 + z1),
           incident = (\<lambda>i. of_real (bc_data (i + 2)) + \<i> * of_real (bc_data (i + 5))) \<rparr>)"

text \<open>The first \<open>switch(bc_name)\<close>: the complex residual vector \<open>cpx_func\<close>.\<close>

definition farfield_cpx_func ::
  "header_consts \<Rightarrow> farfield_locals \<Rightarrow> int \<Rightarrow> (nat \<Rightarrow> cpx) \<Rightarrow> (nat \<Rightarrow> cpx)" where
  "farfield_cpx_func hc l bc_name cpx_func =
     (if bc_name = EM_ER_FARFIELD_DIRECT_BC hc \<or> bc_name = EM_EI_FARFIELD_DIRECT_BC hc then
        for_loop DIM (\<lambda>p.
          for_loop DIM (\<lambda>q.
            for_loop DIM (\<lambda>r cf.
              cf(p := Fin (of_int (permute p q r))
                      * (idiv (tau l) (Fin 1 + Gamma l) * Fin (normal l q) * Fin (E1 l r)
                         + Fin (normal l q) * Fin (incident l r)))))) cpx_func
      else if bc_name = EM_HR_FARFIELD_DIRECT_BC hc \<or> bc_name = EM_HI_FARFIELD_DIRECT_BC hc then
        for_loop DIM (\<lambda>p cf.
          cf(p := idiv (idiv (- Fin (E1 l p)) (impedance2 l) * tau l) (Fin 1 + Gamma l)
                  - idiv (Fin (incident l p)) (impedance2 l))) cpx_func
      else cpx_func)"

text \<open>
  The second \<open>switch(bc_name)\<close>: the residual \<open>func\<close> and the locals \<open>var\<close>,
  \<open>real\<close> and \<open>imag\<close> (\<open>real_c\<close> and \<open>imag_c\<close> below).
\<close>

definition farfield_func ::
  "header_consts \<Rightarrow> uninitialised \<Rightarrow> int \<Rightarrow> (nat \<Rightarrow> cpx) \<Rightarrow> (nat \<Rightarrow> dbl)
     \<Rightarrow> (nat \<Rightarrow> dbl) \<times> int \<times> real \<times> real" where
  "farfield_func hc u bc_name cpx_func func =
     (if bc_name = EM_ER_FARFIELD_DIRECT_BC hc then
        (for_loop DIM (\<lambda>p f. f(p := lift1 Re (cpx_func p))) func, EM_E1_REAL hc, 1, 0)
      else if bc_name = EM_EI_FARFIELD_DIRECT_BC hc then
        (for_loop DIM (\<lambda>p f. f(p := lift1 Im (cpx_func p))) func, EM_E1_IMAG hc, 0, 1)
      else if bc_name = EM_HR_FARFIELD_DIRECT_BC hc then
        (for_loop DIM (\<lambda>p f. f(p := lift1 Re (cpx_func p))) func, EM_H1_REAL hc, 1, 0)
      else if bc_name = EM_HI_FARFIELD_DIRECT_BC hc then
        (for_loop DIM (\<lambda>p f. f(p := lift1 Im (cpx_func p))) func, EM_H1_IMAG hc, 0, 1)
      else (func, var_0 u, real_0 u, imag_0 u))"

text \<open>
  The Jacobian part, under \<open>if(af->Assemble_Jacobian)\<close>. The entry
  \<open>d_func[p][gvar][j]\<close> is the value at \<open>(p, gvar, j)\<close>; the loop counter \<open>g\<close>
  of the source is \<open>ga\<close> here.
\<close>

definition farfield_d_func ::
  "header_consts \<Rightarrow> globals \<Rightarrow> farfield_locals \<Rightarrow> int \<Rightarrow> int \<Rightarrow> real \<Rightarrow> real
     \<Rightarrow> (nat \<times> int \<times> nat \<Rightarrow> dbl) \<Rightarrow> (nat \<times> int \<times> nat \<Rightarrow> dbl)" where
  "farfield_d_func hc g l bc_name var real_c imag_c d_func =
     (if bc_name = EM_ER_FARFIELD_DIRECT_BC hc \<or> bc_name = EM_EI_FARFIELD_DIRECT_BC hc then
        for_loop (Num_Dim (pd g)) (\<lambda>ga.
          let gvar = var + int ga in
          for_loop (Num_Dim (pd g)) (\<lambda>p.
            for_loop (Num_Dim (pd g)) (\<lambda>q.
              for_loop (Num_Dim (pd g)) (\<lambda>r.
                for_loop (Num_Dim (pd g)) (\<lambda>j df.
                  let x = idiv (Fin (of_int (permute p q r)) * tau l) (Fin 1 + Gamma l)
                          * Fin (normal l q) * Fin (of_int (delta q ga))
                          * Fin (of_real (phi (bf g gvar) j))
                  in df((p, gvar, j) := Fin real_c * lift1 Re x + Fin imag_c * lift1 Im x)))))) d_func
      else if bc_name = EM_HR_FARFIELD_DIRECT_BC hc \<or> bc_name = EM_HI_FARFIELD_DIRECT_BC hc then
        for_loop (Num_Dim (pd g)) (\<lambda>ga df.
          let gvar = var + int ga in
          if pd_v (pd g) gvar \<noteq> 0 then
            for_loop DIM (\<lambda>p.
              for_loop (dof g var) (\<lambda>j df.
                let y = idiv (idiv (Fin (of_real (phi (bf g gvar) j))) (impedance2 l))
                             (Fin 1 + Gamma l) * tau l
                in df((p, gvar, j) := - (Fin real_c * lift1 Re y) - Fin imag_c * lift1 Im y))) df
          else df) d_func
      else d_func)"

text \<open>
  The function itself. The parameter \<open>xi\<close> is not used by the body and is left out.
  The result holds the returned status, the two output arrays and the final contents of
  the local \<open>cpx_func\<close>.
\<close>

record farfield_result =
  returned :: int
  func_out :: "nat \<Rightarrow> dbl"
  d_func_out :: "nat \<times> int \<times> nat \<Rightarrow> dbl"
  cpx_func_out :: "nat \<Rightarrow> cpx"

definition apply_em_farfield_direct ::
  "header_consts \<Rightarrow> globals \<Rightarrow> uninitialised \<Rightarrow> (nat \<Rightarrow> dbl) \<Rightarrow> (nat \<times> int \<times> nat \<Rightarrow> dbl)
     \<Rightarrow> int \<Rightarrow> (nat \<Rightarrow> real) \<Rightarrow> farfield_result" where
  "apply_em_farfield_direct hc g u func d_func bc_name bc_data =
     (let l = farfield_setup g u bc_data;
          cpx_func = farfield_cpx_func hc l bc_name (cpx_func_0 u);
          (func', var, real_c, imag_c) = farfield_func hc u bc_name cpx_func func;
          d_func' = (if Assemble_Jacobian g
                     then farfield_d_func hc g l bc_name var real_c imag_c d_func
                     else d_func)
      in \<lparr> returned = 0, func_out = func', d_func_out = d_func', cpx_func_out = cpx_func \<rparr>)"

section \<open>assemble_emwave\<close>

text \<open>
  The Local Accumulator \<open>lec\<close>: the residual entry \<open>lec->R[peqn][i]\<close> is the value
  at \<open>(peqn, i)\<close> and the Jacobian entry \<open>lec->J[peqn][pvar][i][j]\<close> the value at
  \<open>(peqn, pvar, i, j)\<close>.
\<close>

record Local_Element_Contribution =
  lec_R :: "int \<times> nat \<Rightarrow> dbl"
  lec_J :: "int \<times> int \<times> nat \<times> nat \<Rightarrow> dbl"

definition R_add :: "int \<times> nat \<Rightarrow> dbl \<Rightarrow> Local_Element_Contribution \<Rightarrow> Local_Element_Contribution" where
  "R_add idx x lec = lec\<lparr>lec_R := (lec_R lec)(idx := lec_R lec idx + x)\<rparr>"

definition J_add ::
  "int \<times> int \<times> nat \<times> nat \<Rightarrow> dbl \<Rightarrow> Local_Element_Contribution \<Rightarrow> Local_Element_Contribution" where
  "J_add idx x lec = lec\<lparr>lec_J := (lec_J lec)(idx := lec_J lec idx + x)\<rparr>"

text \<open>The first \<open>switch(em_var)\<close>; \<open>None\<close> is its \<open>default\<close> branch.\<close>

record em_field =
  EMF :: real
  EMF_conj :: real
  dir :: nat

definition select_field :: "header_consts \<Rightarrow> Field_Variables \<Rightarrow> int \<Rightarrow> em_field option" where
  "select_field hc f em_var =
     (if em_var = EM_E1_REAL hc then Some \<lparr>EMF = em_er f 0, EMF_conj = em_ei f 0, dir = 0\<rparr>
      else if em_var = EM_E1_IMAG hc then Some \<lparr>EMF = em_ei f 0, EMF_conj = em_er f 0, dir = 0\<rparr>
      else if em_var = EM_E2_REAL hc then Some \<lparr>EMF = em_er f 1, EMF_conj = em_ei f 1, dir = 1\<rparr>
      else if em_var = EM_E2_IMAG hc then Some \<lparr>EMF = em_ei f 1, EMF_conj = em_er f 1, dir = 1\<rparr>
      else if em_var = EM_E3_REAL hc then Some \<lparr>EMF = em_er f 2, EMF_conj = em_ei f 2, dir = 2\<rparr>
      else if em_var = EM_E3_IMAG hc then Some \<lparr>EMF = em_ei f 2, EMF_conj = em_er f 2, dir = 2\<rparr>
      else if em_var = EM_H1_REAL hc then Some \<lparr>EMF = em_hr f 0, EMF_conj = em_hi f 0, dir = 0\<rparr>
      else if em_var = EM_H1_IMAG hc then Some \<lparr>EMF = em_hi f 0, EMF_conj = em_hr f 0, dir = 0\<rparr>
      else if em_var = EM_H2_REAL hc then Some \<lparr>EMF = em_hr f 1, EMF_conj = em_hi f 1, dir = 1\<rparr>
      else if em_var = EM_H2_IMAG hc then Some \<lparr>EMF = em_hi f 1, EMF_conj = em_hr f 1, dir = 1\<rparr>
      else if em_var = EM_H3_REAL hc then Some \<lparr>EMF = em_hr f 2, EMF_conj = em_hi f 2, dir = 2\<rparr>
      else if em_var = EM_H3_IMAG hc then Some \<lparr>EMF = em_hi f 2, EMF_conj = em_hr f 2, dir = 2\<rparr>
      else None)"

text \<open>
  The second \<open>switch(em_var)\<close>. The four sensitivities are quotients by \<open>n\<close> and
  by \<open>k\<close>. The array \<open>cross_field\<close> is assigned, and later read, at the indices
  below \<open>VIM\<close> only.
\<close>

record em_coeffs =
  emf_coeff :: real
  conj_coeff :: real
  emf_coeff_dn :: dbl
  emf_coeff_dk :: dbl
  conj_coeff_dn :: dbl
  conj_coeff_dk :: dbl
  cross_field_var :: int
  cross_field :: "nat \<Rightarrow> real"

definition select_coeffs ::
  "header_consts \<Rightarrow> Field_Variables \<Rightarrow> real \<Rightarrow> real \<Rightarrow> real \<Rightarrow> complex \<Rightarrow> int \<Rightarrow> em_coeffs option" where
  "select_coeffs hc f omega n k eps em_var =
     (if em_var = EM_E1_REAL hc \<or> em_var = EM_E2_REAL hc \<or> em_var = EM_E3_REAL hc then
        Some \<lparr> emf_coeff = omega * Im eps,
               conj_coeff = omega * Re eps,
               emf_coeff_dn = idiv (Fin (omega * Im eps)) (Fin n),
               emf_coeff_dk = idiv (Fin (omega * Im eps)) (Fin k),
               conj_coeff_dn = idiv (Fin (omega * Re eps)) (Fin n),
               conj_coeff_dk = idiv (Fin (omega * Re eps)) (Fin k),
               cross_field_var = EM_H1_REAL hc,
               cross_field = em_hr f \<rparr>
      else if em_var = EM_E1_IMAG hc \<or> em_var = EM_E2_IMAG hc \<or> em_var = EM_E3_IMAG hc then
        Some \<lparr> emf_coeff = omega * Im eps,
               conj_coeff = - omega * Re eps,
               emf_coeff_dn = idiv (Fin (omega * Im eps)) (Fin n),
               emf_coeff_dk = idiv (Fin (omega * Im eps)) (Fin k),
               conj_coeff_dn = idiv (Fin (- omega * Re eps)) (Fin n),
               conj_coeff_dk = idiv (Fin (omega * Re eps)) (Fin k),
               cross_field_var = EM_H1_IMAG hc,
               cross_field = em_hi f \<rparr>
      else if em_var = EM_H1_REAL hc \<or> em_var = EM_H2_REAL hc \<or> em_var = EM_H3_REAL hc then
        Some \<lparr> emf_coeff = 0,
               conj_coeff = - omega * mag_permeability,
               emf_coeff_dn = Fin 0, emf_coeff_dk = Fin 0,
               conj_coeff_dn = Fin 0, conj_coeff_dk = Fin 0,
               cross_field_var = EM_E1_REAL hc,
               cross_field = em_er f \<rparr>
      else if em_var = EM_H1_IMAG hc \<or> em_var = EM_H2_IMAG hc \<or> em_var = EM_H3_IMAG hc then
        Some \<lparr> emf_coeff = 0,
               conj_coeff = omega * mag_permeability,
               emf_coeff_dn = Fin 0, emf_coeff_dk = Fin 0,
               conj_coeff_dn = Fin 0, conj_coeff_dk = Fin 0,
               cross_field_var = EM_E1_IMAG hc,
               cross_field = em_ei f \<rparr>
      else None)"

text \<open>\<open>pd->e[eqn] & T_...\<close>, the test whether a term of the equation is active.\<close>

definition term_on :: "globals \<Rightarrow> int \<Rightarrow> int \<Rightarrow> bool" where
  "term_on g eqn t = (pd_e (pd g) eqn AND t \<noteq> 0)"

text \<open>
  The xfem optimisation at the head of both dof loops:
  \<open>if (xfem != NULL) { xfem_dof_state(...); if (extended_dof && !xfem_active) continue; }\<close>
\<close>

definition xfem_skip :: "globals \<Rightarrow> int \<Rightarrow> nat \<Rightarrow> bool" where
  "xfem_skip g eqn i =
     (xfem_present g \<and>
      (let (xfem_active, extended_dof) = xfem_dof_state g eqn i in extended_dof \<and> \<not> xfem_active))"

text \<open>
  The local array \<open>grad_phi_i\<close> is cleared on entry and then assigned at the indices
  below \<open>VIM\<close>.
\<close>

definition grad_phi_i :: "globals \<Rightarrow> int \<Rightarrow> nat \<Rightarrow> nat \<Rightarrow> real" where
  "grad_phi_i g eqn i p = (if p < VIM g then grad_phi (bf g eqn) i p else 0)"

subsection \<open>Residual\<close>

definition residual_advection :: "header_consts \<Rightarrow> globals \<Rightarrow> int \<Rightarrow> em_field \<Rightarrow> em_coeffs \<Rightarrow> nat \<Rightarrow> real" where
  "residual_advection hc g eqn fl c i =
     (if term_on g eqn (T_ADVECTION hc) then
        (emf_coeff c * EMF fl + conj_coeff c * EMF_conj fl)
          * (phi (bf g eqn) i * h3 (fv g))
          * (detJ (bf g eqn) * wt (fv g))
          * etm (pd g) eqn (LOG2_ADVECTION hc)
      else 0)"

definition residual_diffusion :: "header_consts \<Rightarrow> globals \<Rightarrow> int \<Rightarrow> em_field \<Rightarrow> em_coeffs \<Rightarrow> nat \<Rightarrow> real" where
  "residual_diffusion hc g eqn fl c i =
     (if term_on g eqn (T_DIFFUSION hc) then
        for_loop (VIM g) (\<lambda>p.
          for_loop (VIM g) (\<lambda>q diffusion.
            diffusion - of_int (permute p q (dir fl)) * grad_phi (bf g eqn) i p * cross_field c q)) 0
          * (detJ (bf g eqn) * wt (fv g))
          * h3 (fv g)
          * etm (pd g) eqn (LOG2_DIFFUSION hc)
      else 0)"

definition residual_loop ::
  "header_consts \<Rightarrow> globals \<Rightarrow> int \<Rightarrow> em_field \<Rightarrow> em_coeffs
     \<Rightarrow> Local_Element_Contribution \<Rightarrow> Local_Element_Contribution" where
  "residual_loop hc g eqn fl c =
     for_loop (dof g eqn) (\<lambda>i lec.
       if xfem_skip g eqn i then lec
       else R_add (ep (upd g) eqn, i)
              (Fin (residual_advection hc g eqn fl c i + residual_diffusion hc g eqn fl c i)) lec)"

subsection \<open>Jacobian\<close>

text \<open>The block for the primary unknown and the one for its conjugate: \<open>coeff\<close> is
  \<open>emf_coeff\<close> for \<open>var = em_var\<close> and \<open>conj_coeff\<close> for \<open>var = em_conjvar\<close>.\<close>

definition jacobian_field ::
  "header_consts \<Rightarrow> globals \<Rightarrow> int \<Rightarrow> int \<Rightarrow> real \<Rightarrow> nat
     \<Rightarrow> Local_Element_Contribution \<Rightarrow> Local_Element_Contribution" where
  "jacobian_field hc g eqn var coeff i lec =
     (if pd_v (pd g) var \<noteq> 0 then
        for_loop (dof g var) (\<lambda>j.
          J_add (ep (upd g) eqn, vp (upd g) var, i, j)
            (Fin (if term_on g eqn (T_ADVECTION hc) then
                    phi (bf g eqn) i * coeff * phi (bf g var) j * detJ (bf g eqn) * wt (fv g)
                      * h3 (fv g) * etm (pd g) eqn (LOG2_ADVECTION hc)
                  else 0))) lec
      else lec)"

text \<open>The cross-field block; the entry is touched under \<open>T_DIFFUSION\<close> only.\<close>

definition jacobian_cross_field ::
  "header_consts \<Rightarrow> globals \<Rightarrow> int \<Rightarrow> em_field \<Rightarrow> em_coeffs \<Rightarrow> nat
     \<Rightarrow> Local_Element_Contribution \<Rightarrow> Local_Element_Contribution" where
  "jacobian_cross_field hc g eqn fl c i =
     for_loop (Num_Dim (pd g)) (\<lambda>b lec.
       let var = cross_field_var c + int b in
       if pd_v (pd g) var \<noteq> 0 then
         for_loop (dof g var) (\<lambda>j lec.
           if term_on g eqn (T_DIFFUSION hc) then
             J_add (ep (upd g) eqn, vp (upd g) var, i, j)
               (Fin (for_loop (VIM g) (\<lambda>p.
                       for_loop (VIM g) (\<lambda>q diffusion.
                         diffusion - of_int (permute p q (dir fl)) * grad_phi (bf g eqn) i p
                                       * of_int (delta q b) * phi (bf g var) j)) 0
                     * (detJ (bf g eqn) * wt (fv g))
                     * h3 (fv g)
                     * etm (pd g) eqn (LOG2_DIFFUSION hc))) lec
           else lec) lec
       else lec)"

text \<open>
  The chain-rule factor shared by the temperature, mesh and species blocks, for the
  sensitivities \<open>dn\<close> and \<open>dk\<close> of \<open>n\<close> and \<open>k\<close> to the dof at hand:
  \<open>EMF*(emf_coeff_dn*dn+emf_coeff_dk*dk) + EMF_conj*(conj_coeff_dn*dn+conj_coeff_dk*dk)\<close>
\<close>

definition chain_rule :: "em_field \<Rightarrow> em_coeffs \<Rightarrow> real \<Rightarrow> real \<Rightarrow> dbl" where
  "chain_rule fl c dn dk =
     Fin (EMF fl) * (emf_coeff_dn c * Fin dn + emf_coeff_dk c * Fin dk)
     + Fin (EMF_conj fl) * (conj_coeff_dn c * Fin dn + conj_coeff_dk c * Fin dk)"

definition jacobian_T ::
  "header_consts \<Rightarrow> globals \<Rightarrow> int \<Rightarrow> em_field \<Rightarrow> em_coeffs
     \<Rightarrow> CONDUCTIVITY_DEPENDENCE_STRUCT \<Rightarrow> CONDUCTIVITY_DEPENDENCE_STRUCT \<Rightarrow> nat
     \<Rightarrow> Local_Element_Contribution \<Rightarrow> Local_Element_Contribution" where
  "jacobian_T hc g eqn fl c d_n d_k i lec =
     (let var = TEMPERATURE hc in
      if pd_v (pd g) var \<noteq> 0 then
        for_loop (dof g var) (\<lambda>j.
          J_add (ep (upd g) eqn, vp (upd g) var, i, j)
            (if term_on g eqn (T_ADVECTION hc) then
               Fin (phi (bf g eqn) i) * chain_rule fl c (d_T d_n j) (d_T d_k j)
                 * Fin (detJ (bf g eqn) * wt (fv g))
                 * Fin (h3 (fv g)) * Fin (etm (pd g) eqn (LOG2_ADVECTION hc))
             else Fin 0)) lec
      else lec)"

text \<open>The mesh-displacement block, with its four parts \<open>diff_a\<close> to \<open>diff_d\<close>.\<close>

definition mesh_advection ::
  "header_consts \<Rightarrow> globals \<Rightarrow> int \<Rightarrow> em_field \<Rightarrow> em_coeffs
     \<Rightarrow> CONDUCTIVITY_DEPENDENCE_STRUCT \<Rightarrow> CONDUCTIVITY_DEPENDENCE_STRUCT \<Rightarrow> nat \<Rightarrow> nat \<Rightarrow> int \<Rightarrow> nat
     \<Rightarrow> dbl" where
  "mesh_advection hc g eqn fl c d_n d_k i b var j =
     (let dh3dmesh_bj = dh3dq (fv g) b * phi (bf g var) j;
          d_det_J_dmeshbj = d_det_J_dm (bf g eqn) b j
      in if term_on g eqn (T_ADVECTION hc) then
           (Fin (phi (bf g eqn) i) * chain_rule fl c (d_X d_n b j) (d_X d_k b j)
              * Fin (detJ (bf g eqn) * h3 (fv g) * wt (fv g))
            + Fin (phi (bf g eqn) i * (emf_coeff c * EMF fl + conj_coeff c * EMF_conj fl)
                   * (d_det_J_dmeshbj * h3 (fv g) + detJ (bf g eqn) * dh3dmesh_bj) * wt (fv g)))
           * Fin (etm (pd g) eqn (LOG2_ADVECTION hc))
         else Fin 0)"

definition mesh_diffusion :: "header_consts \<Rightarrow> globals \<Rightarrow> int \<Rightarrow> nat \<Rightarrow> nat \<Rightarrow> int \<Rightarrow> nat \<Rightarrow> real" where
  "mesh_diffusion hc g eqn i b var j =
     (let dh3dmesh_bj = dh3dq (fv g) b * phi (bf g var) j;
          d_det_J_dmeshbj = d_det_J_dm (bf g eqn) b j
      in if term_on g eqn (T_DIFFUSION hc) then
           let diff_a = for_loop (Num_Dim (pd g))
                          (\<lambda>p diff_a. diff_a + d_grad_phi_dmesh (bf g eqn) i p b j) 0
                        * (detJ (bf g eqn) * h3 (fv g) * wt (fv g));
               diff_b = for_loop (VIM g) (\<lambda>p diff_b. diff_b + grad_phi_i g eqn i p) 0
                        * (detJ (bf g eqn) * h3 (fv g) * wt (fv g));
               diff_c = for_loop (Num_Dim (pd g)) (\<lambda>p diff_c. diff_c + grad_phi_i g eqn i p) 0
                        * (d_det_J_dmeshbj * h3 (fv g) * wt (fv g));
               diff_d = for_loop (Num_Dim (pd g)) (\<lambda>p diff_d. diff_d + grad_phi_i g eqn i p) 0
                        * (detJ (bf g eqn) * dh3dmesh_bj * wt (fv g))
           in (diff_a + diff_b + diff_c + diff_d) * etm (pd g) eqn (LOG2_DIFFUSION hc)
         else 0)"

definition jacobian_mesh ::
  "header_consts \<Rightarrow> globals \<Rightarrow> int \<Rightarrow> em_field \<Rightarrow> em_coeffs
     \<Rightarrow> CONDUCTIVITY_DEPENDENCE_STRUCT \<Rightarrow> CONDUCTIVITY_DEPENDENCE_STRUCT \<Rightarrow> nat
     \<Rightarrow> Local_Element_Contribution \<Rightarrow> Local_Element_Contribution" where
  "jacobian_mesh hc g eqn fl c d_n d_k i =
     for_loop (Num_Dim (pd g)) (\<lambda>b lec.
       let var = MESH_DISPLACEMENT1 hc + int b in
       if pd_v (pd g) var \<noteq> 0 then
         for_loop (dof g var) (\<lambda>j.
           J_add (ep (upd g) eqn, vp (upd g) var, i, j)
             (mesh_advection hc g eqn fl c d_n d_k i b var j
              + Fin (mesh_diffusion hc g eqn i b var j))) lec
       else lec)"

text \<open>The species block, stored at the variable slot \<open>MAX_PROB_VAR + w\<close>.\<close>

definition jacobian_c ::
  "header_consts \<Rightarrow> globals \<Rightarrow> int \<Rightarrow> em_field \<Rightarrow> em_coeffs
     \<Rightarrow> CONDUCTIVITY_DEPENDENCE_STRUCT \<Rightarrow> CONDUCTIVITY_DEPENDENCE_STRUCT \<Rightarrow> nat
     \<Rightarrow> Local_Element_Contribution \<Rightarrow> Local_Element_Contribution" where
  "jacobian_c hc g eqn fl c d_n d_k i lec =
     (let var = MASS_FRACTION hc in
      if pd_e (pd g) eqn \<noteq> 0 \<and> pd_v (pd g) var \<noteq> 0 then
        for_loop (Num_Species_Eqn (pd g)) (\<lambda>w.
          for_loop (dof g var) (\<lambda>j.
            J_add (ep (upd g) eqn, MAX_PROB_VAR hc + int w, i, j)
              (if term_on g eqn (T_ADVECTION hc) then
                 Fin (phi (bf g eqn) i) * chain_rule fl c (d_C d_n w j) (d_C d_k w j)
                   * Fin (detJ (bf g eqn) * wt (fv g))
                   * Fin (h3 (fv g)) * Fin (etm (pd g) eqn (LOG2_ADVECTION hc))
               else Fin 0))) lec
      else lec)"

definition jacobian_loop ::
  "header_consts \<Rightarrow> globals \<Rightarrow> int \<Rightarrow> int \<Rightarrow> int \<Rightarrow> em_field \<Rightarrow> em_coeffs
     \<Rightarrow> CONDUCTIVITY_DEPENDENCE_STRUCT \<Rightarrow> CONDUCTIVITY_DEPENDENCE_STRUCT
     \<Rightarrow> Local_Element_Contribution \<Rightarrow> Local_Element_Contribution" where
  "jacobian_loop hc g eqn em_var em_conjvar fl c d_n d_k =
     for_loop (dof g eqn) (\<lambda>i lec.
       if xfem_skip g eqn i then lec
       else
         let lec = jacobian_field hc g eqn em_var (emf_coeff c) i lec;
             lec = jacobian_field hc g eqn em_conjvar (conj_coeff c) i lec;
             lec = jacobian_cross_field hc g eqn fl c i lec;
             lec = jacobian_T hc g eqn fl c d_n d_k i lec;
             lec = jacobian_mesh hc g eqn fl c d_n d_k i lec
         in jacobian_c hc g eqn fl c d_n d_k i lec)"

subsection \<open>The function\<close>

text \<open>
  The parameters \<open>tt\<close>, \<open>dt\<close> and \<open>pg_data\<close> are not used by the body and are left
  out. \<open>EH(-1, message)\<close> is the solver's fatal-error handler, a macro of a header that
  is not part of the source at hand: \<open>EH_raised\<close> records its message, and \<open>status\<close>
  is the value of the \<open>return\<close> statement that follows it.
\<close>

record emwave_result =
  status :: int
  lec_out :: Local_Element_Contribution
  EH_raised :: "string option"

definition assemble_emwave ::
  "header_consts \<Rightarrow> globals \<Rightarrow> Local_Element_Contribution \<Rightarrow> real \<Rightarrow> int \<Rightarrow> int \<Rightarrow> int
     \<Rightarrow> emwave_result" where
  "assemble_emwave hc g lec time em_eqn em_var em_conjvar =
     (if pd_e (pd g) em_eqn = 0 then \<lparr>status = 0, lec_out = lec, EH_raised = None\<rparr>
      else
        let omega = Acoustic_Frequency (upd g);
            (n, d_n) = refractive_index g time;
            (k, d_k) = extinction_index g time;
            eps = cpx_permittivity n k (permittivity g)
        in case select_field hc (fv g) em_var of
             None \<Rightarrow> \<lparr>status = - 1, lec_out = lec,
                      EH_raised = Some ''Invalid EM variable name.''\<rparr>
           | Some fl \<Rightarrow>
               (case select_coeffs hc (fv g) omega n k eps em_var of
                  None \<Rightarrow> \<lparr>status = - 1, lec_out = lec,
                           EH_raised = Some ''assemble_emwave must be called with a usable em_var''\<rparr>
                | Some c \<Rightarrow>
                    let lec1 = (if Assemble_Residual g
                                then residual_loop hc g em_eqn fl c lec else lec);
                        lec2 = (if Assemble_Jacobian g
                                then jacobian_loop hc g em_eqn em_var em_conjvar fl c d_n d_k lec1
                                else lec1)
                    in \<lparr>status = 0, lec_out = lec2, EH_raised = None\<rparr>))"

section \<open>Example inputs\<close>

text \<open>
  Concrete inputs at which the theorems below are instantiated. The header constants
  take distinct values, as the \<open>case\<close> labels of a \<open>switch\<close> must; the element has
  one dof for every variable, a unit basis function with gradient \<open>(1,0,0)\<close>, unit
  geometry factors and a vacuum-like lossless medium (\<open>n = 1\<close>, \<open>k = 0\<close>).
\<close>

definition example_consts :: header_consts where
  "example_consts =
     \<lparr> T_ADVECTION = 2, T_DIFFUSION = 8, LOG2_ADVECTION = 1, LOG2_DIFFUSION = 3,
       EM_E1_REAL = 100, EM_E2_REAL = 101, EM_E3_REAL = 102,
       EM_E1_IMAG = 103, EM_E2_IMAG = 104, EM_E3_IMAG = 105,
       EM_H1_REAL = 106, EM_H2_REAL = 107, EM_H3_REAL = 108,
       EM_H1_IMAG = 109, EM_H2_IMAG = 110, EM_H3_IMAG = 111,
       TEMPERATURE = 10, MESH_DISPLACEMENT1 = 5, MASS_FRACTION = 20, MAX_PROB_VAR = 200,
       EM_ER_FARFIELD_DIRECT_BC = 1001, EM_EI_FARFIELD_DIRECT_BC = 1002,
       EM_HR_FARFIELD_DIRECT_BC = 1003, EM_HI_FARFIELD_DIRECT_BC = 1004 \<rparr>"

definition no_dependence :: CONDUCTIVITY_DEPENDENCE_STRUCT where
  "no_dependence = \<lparr> d_T = (\<lambda>_. 0), d_X = (\<lambda>_ _. 0), d_C = (\<lambda>_ _. 0) \<rparr>"

definition example_bf :: Basis_Functions where
  "example_bf =
     \<lparr> phi = (\<lambda>_. 1), grad_phi = (\<lambda>_ p. if p = 0 then 1 else 0), detJ = 1,
       d_det_J_dm = (\<lambda>_ _. 0), d_grad_phi_dmesh = (\<lambda>_ _ _ _. 0) \<rparr>"

definition example_fv :: Field_Variables where
  "example_fv =
     \<lparr> wt = 1, h3 = 1, dh3dq = (\<lambda>_. 0),
       em_er = (\<lambda>i. if i = 1 then 1 else 0), em_ei = (\<lambda>_. 0),
       em_hr = (\<lambda>_. 0), em_hi = (\<lambda>_. 0),
       snormal = (\<lambda>i. if i = 0 then 1 else 0) \<rparr>"

definition example_globals :: globals where
  "example_globals =
     \<lparr> pd = \<lparr> Num_Dim = 3, pd_e = (\<lambda>_. 10), pd_v = (\<lambda>_. 0), etm = (\<lambda>_ _. 1),
              Num_Species_Eqn = 0 \<rparr>,
       upd = \<lparr> Acoustic_Frequency = 1, ep = (\<lambda>_. 0), vp = (\<lambda>var. var) \<rparr>,
       dof = (\<lambda>_. 1),
       bf = (\<lambda>_. example_bf),
       fv = example_fv,
       permittivity = 1,
       Assemble_Residual = True,
       Assemble_Jacobian = True,
       VIM = 3,
       refractive_index = (\<lambda>_. (1, no_dependence)),
       extinction_index = (\<lambda>_. (0, no_dependence)),
       xfem_present = False,
       xfem_dof_state = (\<lambda>_ _. (False, False)) \<rparr>"

definition example_uninitialised :: uninitialised where
  "example_uninitialised =
     \<lparr> n2_0 = 1, cpx_func_0 = (\<lambda>_. Fin 9), var_0 = 0, real_0 = 0, imag_0 = 0 \<rparr>"

definition example_lec :: Local_Element_Contribution where
  "example_lec = \<lparr> lec_R = (\<lambda>_. Fin 0), lec_J = (\<lambda>_. Fin 0) \<rparr>"

text \<open>The same element with the xfem optimisation on and its dof extended and inactive.\<close>

definition example_xfem_globals :: globals where
  "example_xfem_globals =
     example_globals \<lparr> xfem_present := True, xfem_dof_state := (\<lambda>_ _. (False, True)) \<rparr>"

text \<open>
  The same element with the diffusion term alone, the first mesh displacement as the only
  active variable and no field at all. The geometry does not depend on the mesh dof:
  all three geometric sensitivities are zero.
\<close>

definition example_mesh_globals :: globals where
  "example_mesh_globals =
     example_globals
       \<lparr> pd := \<lparr> Num_Dim = 3, pd_e = (\<lambda>_. 8), pd_v = (\<lambda>var. if var = 5 then 1 else 0),
                 etm = (\<lambda>_ _. 1), Num_Species_Eqn = 0 \<rparr>,
         fv := example_fv \<lparr> em_er := (\<lambda>_. 0) \<rparr> \<rparr>"

text \<open>
  The same element with temperature, the first mesh displacement and one species as
  active variables.
\<close>

definition example_coupled_globals :: globals where
  "example_coupled_globals =
     example_globals
       \<lparr> pd := \<lparr> Num_Dim = 3, pd_e = (\<lambda>_. 10),
                 pd_v = (\<lambda>var. if var = 10 \<or> var = 5 \<or> var = 20 then 1 else 0),
                 etm = (\<lambda>_ _. 1), Num_Species_Eqn = 1 \<rparr> \<rparr>"

section \<open>Arithmetic of computed values\<close>

lemma ieee_Fin_arith [simp]:
  "Fin a + Fin b = Fin (a + b)"
  "Fin a * Fin b = Fin (a * b)"
  "Fin a - Fin b = Fin (a - b)"
  "- Fin a = Fin (- a)"
  by (simp_all add: plus_ieee_def times_ieee_def minus_ieee_def uminus_ieee_def)

lemma ieee_NonFin_arith [simp]:
  "NonFin + x = NonFin" "x + NonFin = NonFin"
  "NonFin * x = NonFin" "x * NonFin = NonFin"
  "NonFin - x = NonFin" "x - NonFin = NonFin"
  "- NonFin = (NonFin :: 'a::uminus ieee)"
  by (simp_all add: plus_ieee_def times_ieee_def minus_ieee_def uminus_ieee_def split: ieee.splits)

lemma idiv_simps [simp]:
  "idiv (Fin a) (Fin b) = (if b = 0 then NonFin else Fin (a / b))"
  "idiv NonFin y = NonFin" "idiv x NonFin = NonFin"
  by (simp_all add: idiv_def split: ieee.splits)

lemma lift1_simps [simp]:
  "lift1 f (Fin a) = Fin (f a)" "lift1 f NonFin = NonFin"
  by (simp_all add: lift1_def)

section \<open>Properties of loops\<close>

lemma for_loop_0 [simp]: "for_loop 0 body s = s"
  by (simp add: for_loop_def)

lemma for_loop_Suc: "for_loop (Suc n) body s = body n (for_loop n body s)"
  by (simp add: for_loop_def)

lemma for_loop_invariant:
  assumes "P s" and "\<And>i s. i < n \<Longrightarrow> P s \<Longrightarrow> P (body i s)"
  shows "P (for_loop n body s)"
  using assms(2)
proof (induction n)
  case 0
  show ?case using assms(1) by simp
next
  case (Suc n)
  then show ?case
    by (simp add: for_loop_Suc)
qed

lemma for_loop_minus_sum:
  "for_loop n (\<lambda>p d. d - f p) a = a - (\<Sum>p<n. (f p :: real))"
  by (induction n) (simp_all add: for_loop_Suc)

lemma for_loop_nested_minus_sum:
  "for_loop n (\<lambda>p. for_loop m (\<lambda>q d. d - f p q)) a = a - (\<Sum>p<n. \<Sum>q<m. (f p q :: real))"
  by (induction n) (simp_all add: for_loop_Suc for_loop_minus_sum)

lemma for_loop_establish:
  assumes "b < n"
    and "\<And>s. P (body b s)"
    and "\<And>b' s. b' < n \<Longrightarrow> P s \<Longrightarrow> P (body b' s)"
  shows "P (for_loop n body s)"
  using assms(1,3)
proof (induction n)
  case 0
  then show ?case by simp
next
  case (Suc n)
  show ?case
  proof (cases "b = n")
    case True
    then show ?thesis
      using assms(2) [of "for_loop n body s"] by (simp add: for_loop_Suc)
  next
    case False
    then have "b < n"
      using Suc.prems(1) by simp
    then have "P (for_loop n body s)"
      using Suc.IH Suc.prems(2) by simp
    then show ?thesis
      by (simp add: for_loop_Suc Suc.prems(2))
  qed
qed

lemma for_loop_numeral:
  "for_loop (numeral v) body s = body (pred_numeral v) (for_loop (pred_numeral v) body s)"
  by (simp add: numeral_eq_Suc for_loop_Suc)

lemma for_loop_1: "for_loop (Suc 0) body s = body 0 s"
  by (simp add: for_loop_Suc)

section \<open>Properties of the algebra utilities\<close>

lemma upt_3: "[0..<3] = [0, 1, 2]"
  by (simp add: upt_rec)

lemma complex_cross_vectors_components:
  "complex_cross_vectors a b v2 0 = a 1 * b 2 - a 2 * b 1"
  "complex_cross_vectors a b v2 1 = a 2 * b 0 - a 0 * b 2"
  "complex_cross_vectors a b v2 2 = a 0 * b 1 - a 1 * b 0"
  by (simp_all add: complex_cross_vectors_def for_loop_def DIM_def upt_3 memset_zero_def
        permute_def)

lemma permute_sum_components:
  "(\<Sum>i<3. \<Sum>j<3. of_int (permute i j 0) * a i * b j) = a 1 * b 2 - a 2 * (b 1 :: complex)"
  "(\<Sum>i<3. \<Sum>j<3. of_int (permute i j 1) * a i * b j) = a 2 * b 0 - a 0 * (b 2 :: complex)"
  "(\<Sum>i<3. \<Sum>j<3. of_int (permute i j 2) * a i * b j) = a 0 * b 1 - a 1 * (b 0 :: complex)"
  by (simp_all add: permute_def eval_nat_numeral lessThan_Suc)

lemma less_DIM_cases: "k < DIM \<Longrightarrow> k = 0 \<or> k = 1 \<or> k = 2"
  by (auto simp: DIM_def)

text \<open>
  Claim C8. For all complex 3-vectors \<open>a\<close> and \<open>b\<close>, \<open>complex_cross_vectors\<close>
  leaves in every component \<open>k\<close> of its output the sum over \<open>i\<close> and \<open>j\<close> of
  \<open>permute(i,j,k) * a[i] * b[j]\<close>, whatever the output buffer held before, and the
  product is anticommutative: each component for \<open>(a, b)\<close> is the negative of the one
  for \<open>(b, a)\<close>.
\<close>

theorem complex_cross_vectors_sum_anticommutative:
  "k < DIM \<Longrightarrow>
     complex_cross_vectors a b v2 k = (\<Sum>i<DIM. \<Sum>j<DIM. of_int (permute i j k) * a i * b j)
     \<and> complex_cross_vectors a b v2 k = - complex_cross_vectors b a v2' k"
proof -
  assume "k < DIM"
  then consider "k = 0" | "k = 1" | "k = 2"
    using less_DIM_cases by blast
  then show ?thesis
  proof cases
    case 1
    show ?thesis
      unfolding 1 DIM_def complex_cross_vectors_components permute_sum_components by simp
  next
    case 2
    show ?thesis
      unfolding 2 DIM_def complex_cross_vectors_components permute_sum_components by simp
  next
    case 3
    show ?thesis
      unfolding 3 DIM_def complex_cross_vectors_components permute_sum_components by simp
  qed
qed

theorem complex_cross_vectors_witness:
  "(2::nat) < DIM
   \<and> complex_cross_vectors (\<lambda>i. [1, \<i>, 0] ! i) (\<lambda>i. [0, 2, \<i>] ! i) (\<lambda>_. 7) 2
       = (\<Sum>i<DIM. \<Sum>j<DIM. of_int (permute i j 2) * ([1, \<i>, 0] ! i) * ([0, 2, \<i>] ! j))
   \<and> complex_cross_vectors (\<lambda>i. [1, \<i>, 0] ! i) (\<lambda>i. [0, 2, \<i>] ! i) (\<lambda>_. 7) 2
       = - complex_cross_vectors (\<lambda>i. [0, 2, \<i>] ! i) (\<lambda>i. [1, \<i>, 0] ! i) (\<lambda>_. 9) 2"
proof -
  have d: "(2::nat) < DIM"
    by (simp add: DIM_def)
  show ?thesis
    by (rule conjI [OF d complex_cross_vectors_sum_anticommutative [OF d]])
qed

section \<open>Properties of apply_em_farfield_direct\<close>

lemma impedance_Fin: "impedance eps = Fin z \<longleftrightarrow> eps \<noteq> 0 \<and> z = csqrt (of_real mag_permeability / eps)"
  by (auto simp: impedance_def)

lemma farfield_setup_sel:
  "impedance1 (farfield_setup g u bc_data) =
     impedance (cpx_permittivity (fst (refractive_index g 0)) (fst (extinction_index g 0)) (permittivity g))"
  "impedance2 (farfield_setup g u bc_data) =
     impedance (cpx_permittivity (n2_0 u) (bc_data 1) (permittivity g))"
  "Gamma (farfield_setup g u bc_data) =
     idiv (impedance2 (farfield_setup g u bc_data) - impedance1 (farfield_setup g u bc_data))
          (impedance2 (farfield_setup g u bc_data) + impedance1 (farfield_setup g u bc_data))"
  "tau (farfield_setup g u bc_data) =
     idiv (Fin 2 * impedance2 (farfield_setup g u bc_data))
          (impedance2 (farfield_setup g u bc_data) + impedance1 (farfield_setup g u bc_data))"
  by (simp_all add: farfield_setup_def Let_def)

lemma cpx_permittivity_vacuum: "cpx_permittivity 1 0 1 = 1"
  by (simp add: cpx_permittivity_def)

lemma mag_permeability_nonzero: "complex_of_real mag_permeability \<noteq> 0"
  by (simp add: mag_permeability_def)

lemma example_impedances:
  "impedance1 (farfield_setup example_globals example_uninitialised bc_data)
     = Fin (csqrt (of_real mag_permeability))"
  "bc_data 1 = 0 \<Longrightarrow> impedance2 (farfield_setup example_globals example_uninitialised bc_data)
     = Fin (csqrt (of_real mag_permeability))"
  by (simp_all add: farfield_setup_sel example_globals_def example_uninitialised_def
        cpx_permittivity_vacuum impedance_def)

lemma example_coefficients:
  assumes "bc_data 1 = 0"
  shows "Gamma (farfield_setup example_globals example_uninitialised bc_data) = Fin 0"
    and "tau (farfield_setup example_globals example_uninitialised bc_data) = Fin 1"
proof -
  have z2: "impedance2 (farfield_setup example_globals example_uninitialised bc_data)
     = Fin (csqrt (of_real mag_permeability))"
    using assms by (rule example_impedances(2))
  show "Gamma (farfield_setup example_globals example_uninitialised bc_data) = Fin 0"
    using mag_permeability_nonzero
    by (simp add: farfield_setup_sel(3) example_impedances(1) z2)
  show "tau (farfield_setup example_globals example_uninitialised bc_data) = Fin 1"
    using mag_permeability_nonzero
    by (simp add: farfield_setup_sel(4) example_impedances(1) z2)
qed

text \<open>
  Claim C5. Whenever the interior impedance \<open>Z1\<close> and the exterior impedance \<open>Z2\<close>
  that \<open>apply_em_farfield_direct\<close> computes are numbers with \<open>Z1 + Z2\<close> nonzero, its
  coefficients are \<open>Gamma = (Z2 - Z1)/(Z2 + Z1)\<close> and \<open>tau = 2*Z2/(Z2 + Z1)\<close>, so that
  \<open>tau - Gamma = 1\<close> and \<open>tau = 1 + Gamma\<close>; and each impedance is the complex square
  root of \<open>mag_permeability\<close> over the complex permittivity of its medium.
\<close>

theorem farfield_coefficients:
  assumes "impedance1 (farfield_setup g u bc_data) = Fin Z1"
    and "impedance2 (farfield_setup g u bc_data) = Fin Z2"
    and "Z1 + Z2 \<noteq> 0"
  shows "Gamma (farfield_setup g u bc_data) = Fin ((Z2 - Z1) / (Z2 + Z1))
       \<and> tau (farfield_setup g u bc_data) = Fin (2 * Z2 / (Z2 + Z1))
       \<and> tau (farfield_setup g u bc_data) - Gamma (farfield_setup g u bc_data) = Fin 1
       \<and> tau (farfield_setup g u bc_data) = Fin 1 + Gamma (farfield_setup g u bc_data)
       \<and> Z1 = csqrt (of_real mag_permeability
               / cpx_permittivity (fst (refractive_index g 0)) (fst (extinction_index g 0)) (permittivity g))
       \<and> Z2 = csqrt (of_real mag_permeability
               / cpx_permittivity (n2_0 u) (bc_data 1) (permittivity g))"
proof -
  have nz: "Z2 + Z1 \<noteq> 0"
    using assms(3) by (simp add: add.commute)
  have G: "Gamma (farfield_setup g u bc_data) = Fin ((Z2 - Z1) / (Z2 + Z1))"
    using nz by (simp add: farfield_setup_sel(3) assms(1,2))
  have T: "tau (farfield_setup g u bc_data) = Fin (2 * Z2 / (Z2 + Z1))"
    using nz by (simp add: farfield_setup_sel(4) assms(1,2))
  have "2 * Z2 / (Z2 + Z1) - (Z2 - Z1) / (Z2 + Z1) = (2 * Z2 - (Z2 - Z1)) / (Z2 + Z1)"
    by (rule diff_divide_distrib [symmetric])
  also have "\<dots> = (Z2 + Z1) / (Z2 + Z1)"
  proof -
    have "2 * Z2 - (Z2 - Z1) = Z2 + Z1"
      by simp
    then show ?thesis
      by (simp only:)
  qed
  also have "\<dots> = 1"
    using nz by simp
  finally have d: "2 * Z2 / (Z2 + Z1) - (Z2 - Z1) / (Z2 + Z1) = 1" .
  then have d': "2 * Z2 / (Z2 + Z1) = 1 + (Z2 - Z1) / (Z2 + Z1)"
    by (simp add: algebra_simps)
  have z1: "Z1 = csqrt (of_real mag_permeability
               / cpx_permittivity (fst (refractive_index g 0)) (fst (extinction_index g 0)) (permittivity g))"
    using assms(1) by (simp add: farfield_setup_sel(1) impedance_Fin)
  have z2: "Z2 = csqrt (of_real mag_permeability
               / cpx_permittivity (n2_0 u) (bc_data 1) (permittivity g))"
    using assms(2) by (simp add: farfield_setup_sel(2) impedance_Fin)
  show ?thesis
    using G T d d' z1 z2 by simp
qed


theorem farfield_coefficients_witness:
  "impedance1 (farfield_setup example_globals example_uninitialised (\<lambda>_. 0))
     = Fin (csqrt (of_real mag_permeability))
   \<and> impedance2 (farfield_setup example_globals example_uninitialised (\<lambda>_. 0))
     = Fin (csqrt (of_real mag_permeability))
   \<and> csqrt (of_real mag_permeability) + csqrt (of_real mag_permeability) \<noteq> 0
   \<and> Gamma (farfield_setup example_globals example_uninitialised (\<lambda>_. 0)) = Fin 0
   \<and> tau (farfield_setup example_globals example_uninitialised (\<lambda>_. 0)) = Fin 1"
proof -
  have z1: "impedance1 (farfield_setup example_globals example_uninitialised (\<lambda>_. 0))
     = Fin (csqrt (of_real mag_permeability))"
    by (rule example_impedances(1))
  have z2: "impedance2 (farfield_setup example_globals example_uninitialised (\<lambda>_. 0))
     = Fin (csqrt (of_real mag_permeability))"
    by (rule example_impedances(2)) simp
  have nz: "csqrt (of_real mag_permeability) + csqrt (of_real mag_permeability) \<noteq> 0"
    using mag_permeability_nonzero by simp
  show ?thesis
    using z1 z2 nz farfield_coefficients [OF z1 z2 nz] mag_permeability_nonzero by simp
qed

text \<open>
  Claim C10. For a \<open>bc_name\<close> that is none of the four far-field kinds,
  \<open>apply_em_farfield_direct\<close> returns 0, leaves \<open>func\<close> and \<open>d_func\<close> as they
  were, and never assigns its local \<open>cpx_func\<close>, which keeps its indeterminate
  initial contents.
\<close>

theorem farfield_unrecognised_kind:
  assumes "bc_name \<noteq> EM_ER_FARFIELD_DIRECT_BC hc" and "bc_name \<noteq> EM_EI_FARFIELD_DIRECT_BC hc"
    and "bc_name \<noteq> EM_HR_FARFIELD_DIRECT_BC hc" and "bc_name \<noteq> EM_HI_FARFIELD_DIRECT_BC hc"
  shows "returned (apply_em_farfield_direct hc g u func d_func bc_name bc_data) = 0
       \<and> func_out (apply_em_farfield_direct hc g u func d_func bc_name bc_data) = func
       \<and> d_func_out (apply_em_farfield_direct hc g u func d_func bc_name bc_data) = d_func
       \<and> cpx_func_out (apply_em_farfield_direct hc g u func d_func bc_name bc_data) = cpx_func_0 u"
  using assms
  by (simp add: apply_em_farfield_direct_def farfield_cpx_func_def farfield_func_def
      farfield_d_func_def Let_def)

theorem farfield_unrecognised_kind_witness:
  "(0::int) \<noteq> EM_ER_FARFIELD_DIRECT_BC example_consts
   \<and> (0::int) \<noteq> EM_EI_FARFIELD_DIRECT_BC example_consts
   \<and> (0::int) \<noteq> EM_HR_FARFIELD_DIRECT_BC example_consts
   \<and> (0::int) \<noteq> EM_HI_FARFIELD_DIRECT_BC example_consts
   \<and> returned (apply_em_farfield_direct example_consts example_globals example_uninitialised
        (\<lambda>_. Fin 3) (\<lambda>_. Fin 4) 0 (\<lambda>_. 0)) = 0
   \<and> func_out (apply_em_farfield_direct example_consts example_globals example_uninitialised
        (\<lambda>_. Fin 3) (\<lambda>_. Fin 4) 0 (\<lambda>_. 0)) = (\<lambda>_. Fin 3)
   \<and> d_func_out (apply_em_farfield_direct example_consts example_globals example_uninitialised
        (\<lambda>_. Fin 3) (\<lambda>_. Fin 4) 0 (\<lambda>_. 0)) = (\<lambda>_. Fin 4)"
proof -
  have a: "(0::int) \<noteq> EM_ER_FARFIELD_DIRECT_BC example_consts"
    and b: "(0::int) \<noteq> EM_EI_FARFIELD_DIRECT_BC example_consts"
    and c: "(0::int) \<noteq> EM_HR_FARFIELD_DIRECT_BC example_consts"
    and d: "(0::int) \<noteq> EM_HI_FARFIELD_DIRECT_BC example_consts"
    by (simp_all add: example_consts_def)
  show ?thesis
    using a b c d
      farfield_unrecognised_kind [OF a b c d, of example_globals example_uninitialised
        "\<lambda>_. Fin 3" "\<lambda>_. Fin 4" "\<lambda>_. 0"]
    by simp
qed

subsection \<open>The E-type residual\<close>

text \<open>
  The innermost statement of the E-type triple loop is an assignment, not an
  accumulation: after the loops each component holds the term of the last pair
  \<open>q = r = 2\<close>, whose permutation symbol is zero.
\<close>

lemma farfield_cpx_func_E:
  assumes "bc_name = EM_ER_FARFIELD_DIRECT_BC hc \<or> bc_name = EM_EI_FARFIELD_DIRECT_BC hc"
    and "p < DIM"
  shows "farfield_cpx_func hc l bc_name cf p =
           Fin 0 * (idiv (tau l) (Fin 1 + Gamma l) * Fin (normal l 2) * Fin (E1 l 2)
                    + Fin (normal l 2) * Fin (incident l 2))"
  using assms less_DIM_cases [OF assms(2)]
  by (auto simp: farfield_cpx_func_def for_loop_def DIM_def upt_3 permute_def)

text \<open>The H-type residual and the choice of the real or the imaginary part.\<close>

lemma farfield_cpx_func_H:
  assumes "bc_name \<noteq> EM_ER_FARFIELD_DIRECT_BC hc" and "bc_name \<noteq> EM_EI_FARFIELD_DIRECT_BC hc"
    and "bc_name = EM_HR_FARFIELD_DIRECT_BC hc \<or> bc_name = EM_HI_FARFIELD_DIRECT_BC hc"
    and "p < DIM"
  shows "farfield_cpx_func hc l bc_name cf p =
           idiv (idiv (- Fin (E1 l p)) (impedance2 l) * tau l) (Fin 1 + Gamma l)
           - idiv (Fin (incident l p)) (impedance2 l)"
  using assms less_DIM_cases [OF assms(4)]
  by (auto simp: farfield_cpx_func_def for_loop_def DIM_def upt_3)

lemma farfield_func_selects_part:
  assumes "p < DIM"
  shows "bc_name = EM_ER_FARFIELD_DIRECT_BC hc
           \<Longrightarrow> fst (farfield_func hc u bc_name cf func) p = lift1 Re (cf p)"
    and "bc_name \<noteq> EM_ER_FARFIELD_DIRECT_BC hc \<Longrightarrow> bc_name = EM_EI_FARFIELD_DIRECT_BC hc
           \<Longrightarrow> fst (farfield_func hc u bc_name cf func) p = lift1 Im (cf p)"
    and "bc_name \<noteq> EM_ER_FARFIELD_DIRECT_BC hc \<Longrightarrow> bc_name \<noteq> EM_EI_FARFIELD_DIRECT_BC hc
           \<Longrightarrow> bc_name = EM_HR_FARFIELD_DIRECT_BC hc
           \<Longrightarrow> fst (farfield_func hc u bc_name cf func) p = lift1 Re (cf p)"
    and "bc_name \<noteq> EM_ER_FARFIELD_DIRECT_BC hc \<Longrightarrow> bc_name \<noteq> EM_EI_FARFIELD_DIRECT_BC hc
           \<Longrightarrow> bc_name \<noteq> EM_HR_FARFIELD_DIRECT_BC hc \<Longrightarrow> bc_name = EM_HI_FARFIELD_DIRECT_BC hc
           \<Longrightarrow> fst (farfield_func hc u bc_name cf func) p = lift1 Im (cf p)"
  using less_DIM_cases [OF assms]
  by (auto simp: farfield_func_def for_loop_def DIM_def upt_3)

lemma lessThan_DIM: "{..<DIM} = {0, 1, 2}"
  by (auto simp: DIM_def)

text \<open>
  Claim C1, evaluated on the code. The interior field is \<open>(0, 1, 0)\<close>, the surface
  normal \<open>(1, 0, 0)\<close>, there is no incident field and both media are the same, so
  \<open>tau = 1\<close> and \<open>Gamma = 0\<close>. The claimed triple sum for the component \<open>p = 2\<close> of
  an E-type call is 1; the function leaves \<open>cpx_func[2] = 0\<close> and emits \<open>func[2] = 0\<close>.
\<close>

theorem farfield_E_residual_at_example:
  "func_out (apply_em_farfield_direct example_consts example_globals example_uninitialised
      (\<lambda>_. Fin 5) (\<lambda>_. Fin 0) (EM_ER_FARFIELD_DIRECT_BC example_consts) (\<lambda>_. 0)) 2 = Fin 0
   \<and> cpx_func_out (apply_em_farfield_direct example_consts example_globals example_uninitialised
      (\<lambda>_. Fin 5) (\<lambda>_. Fin 0) (EM_ER_FARFIELD_DIRECT_BC example_consts) (\<lambda>_. 0)) 2 = Fin 0
   \<and> tau (farfield_setup example_globals example_uninitialised (\<lambda>_. 0)) = Fin 1
   \<and> Gamma (farfield_setup example_globals example_uninitialised (\<lambda>_. 0)) = Fin 0
   \<and> (\<Sum>q<DIM. \<Sum>r<DIM. of_int (permute 2 q r)
         * (1 / (1 + 0) * normal (farfield_setup example_globals example_uninitialised (\<lambda>_. 0)) q
                       * E1 (farfield_setup example_globals example_uninitialised (\<lambda>_. 0)) r
            + normal (farfield_setup example_globals example_uninitialised (\<lambda>_. 0)) q
              * incident (farfield_setup example_globals example_uninitialised (\<lambda>_. 0)) r)) = 1"
proof -
  let ?l = "farfield_setup example_globals example_uninitialised (\<lambda>_. 0)"
  let ?r = "apply_em_farfield_direct example_consts example_globals example_uninitialised
      (\<lambda>_. Fin 5) (\<lambda>_. Fin 0) (EM_ER_FARFIELD_DIRECT_BC example_consts) (\<lambda>_. 0)"
  have t: "tau ?l = Fin 1" and g: "Gamma ?l = Fin 0"
    by (simp_all add: example_coefficients)
  have c: "cpx_func_out ?r 2 = Fin 0"
    by (simp add: apply_em_farfield_direct_def Let_def split_def farfield_cpx_func_E DIM_def t g)
  have f: "func_out ?r 2 = Fin 0"
    using c
    by (simp add: apply_em_farfield_direct_def Let_def split_def farfield_func_def
        for_loop_def DIM_def upt_3)
  have s: "(\<Sum>q<DIM. \<Sum>r<DIM. of_int (permute 2 q r)
         * (1 / (1 + 0) * normal ?l q * E1 ?l r + normal ?l q * incident ?l r)) = 1"
    by (simp add: lessThan_DIM permute_def farfield_setup_def Let_def example_globals_def
        example_fv_def)
  show ?thesis
    using c f t g s by simp
qed


subsection \<open>The exterior refractive index\<close>

text \<open>
  The exterior impedance is computed from the uninitialised local \<open>n2\<close> and from
  \<open>bc_data[1]\<close>: the first boundary datum has no influence on it.
\<close>

lemma farfield_impedance2_ignores_first_datum:
  "impedance2 (farfield_setup g u (bc_data(0 := x))) = impedance2 (farfield_setup g u bc_data)"
  by (simp add: farfield_setup_sel(2))


lemma farfield_incident:
  "incident (farfield_setup g u bc_data) i
     = of_real (bc_data (i + 2)) + \<i> * of_real (bc_data (i + 5))"
  by (simp add: farfield_setup_def Let_def)

text \<open>
  Claim C3, evaluated on the code. With \<open>bc_data[0] = 2\<close> and \<open>bc_data[1] = 0\<close> in a
  medium of base permittivity 1, the claimed exterior impedance is
  \<open>csqrt(mag_permeability / 4)\<close>. The function stores 2 in \<open>ns\<close> and computes the
  impedance from the indeterminate \<open>n2\<close>, here 1: \<open>csqrt(mag_permeability)\<close>.
\<close>

theorem farfield_exterior_index_at_example:
  "ns (farfield_setup example_globals example_uninitialised (\<lambda>i. if i = 0 then 2 else 0)) = 2
   \<and> impedance2 (farfield_setup example_globals example_uninitialised (\<lambda>i. if i = 0 then 2 else 0))
       = Fin (csqrt (of_real mag_permeability))
   \<and> impedance (cpx_permittivity 2 0 (permittivity example_globals))
       = Fin (csqrt (of_real mag_permeability / 4))
   \<and> csqrt (of_real mag_permeability) \<noteq> csqrt (of_real mag_permeability / 4)"
proof -
  have n: "ns (farfield_setup example_globals example_uninitialised (\<lambda>i. if i = 0 then 2 else 0)) = 2"
    by (simp add: farfield_setup_def Let_def)
  have z: "impedance2 (farfield_setup example_globals example_uninitialised (\<lambda>i. if i = 0 then 2 else 0))
       = Fin (csqrt (of_real mag_permeability))"
    by (rule example_impedances(2)) simp
  have e: "cpx_permittivity 2 0 (permittivity example_globals) = 4"
    by (simp add: cpx_permittivity_def example_globals_def)
  have c: "impedance (cpx_permittivity 2 0 (permittivity example_globals))
       = Fin (csqrt (of_real mag_permeability / 4))"
    by (simp add: e impedance_def)
  have d: "csqrt (of_real mag_permeability) \<noteq> csqrt (of_real mag_permeability / 4)"
  proof
    assume "csqrt (of_real mag_permeability) = csqrt (of_real mag_permeability / 4)"
    then have "(csqrt (of_real mag_permeability))\<^sup>2 = (csqrt (of_real mag_permeability / 4))\<^sup>2"
      by simp
    then have "complex_of_real mag_permeability = of_real mag_permeability / 4"
      by (simp only: power2_csqrt)
    then show False
      using mag_permeability_nonzero by simp
  qed
  show ?thesis
    using n z c d by simp
qed

section \<open>Properties of assemble_emwave\<close>

subsection \<open>The accumulator under the two dof loops\<close>

lemma lec_add_simps [simp]:
  "lec_R (J_add jdx x lec) = lec_R lec"
  "lec_J (R_add idx y lec) = lec_J lec"
  "lec_J (J_add jdx x lec) = (lec_J lec)(jdx := lec_J lec jdx + x)"
  "lec_R (R_add idx y lec) = (lec_R lec)(idx := lec_R lec idx + y)"
  by (simp_all add: J_add_def R_add_def)

lemma residual_loop_R:
  "lec_R (residual_loop hc g eqn fl c lec) (peqn, i) =
     (if peqn = ep (upd g) eqn \<and> i < dof g eqn \<and> \<not> xfem_skip g eqn i
      then lec_R lec (peqn, i)
           + Fin (residual_advection hc g eqn fl c i + residual_diffusion hc g eqn fl c i)
      else lec_R lec (peqn, i))"
proof -
  have "lec_R (for_loop m (\<lambda>i lec.
       if xfem_skip g eqn i then lec
       else R_add (ep (upd g) eqn, i)
              (Fin (residual_advection hc g eqn fl c i + residual_diffusion hc g eqn fl c i)) lec) lec)
       (peqn, i) =
     (if peqn = ep (upd g) eqn \<and> i < m \<and> \<not> xfem_skip g eqn i
      then lec_R lec (peqn, i)
           + Fin (residual_advection hc g eqn fl c i + residual_diffusion hc g eqn fl c i)
      else lec_R lec (peqn, i))" for m
    by (induction m) (auto simp: for_loop_Suc less_Suc_eq)
  then show ?thesis
    by (simp add: residual_loop_def)
qed

lemma jacobian_blocks_R [simp]:
  "lec_R (jacobian_field hc g eqn var coeff i lec) = lec_R lec"
  "lec_R (jacobian_cross_field hc g eqn fl c i lec) = lec_R lec"
  "lec_R (jacobian_T hc g eqn fl c d_n d_k i lec) = lec_R lec"
  "lec_R (jacobian_mesh hc g eqn fl c d_n d_k i lec) = lec_R lec"
  "lec_R (jacobian_c hc g eqn fl c d_n d_k i lec) = lec_R lec"
  unfolding jacobian_field_def jacobian_cross_field_def jacobian_T_def jacobian_mesh_def
    jacobian_c_def Let_def
  by (auto intro!: for_loop_invariant [where P = "\<lambda>l. lec_R l = lec_R lec"])

lemma jacobian_loop_R [simp]:
  "lec_R (jacobian_loop hc g eqn em_var em_conjvar fl c d_n d_k lec) = lec_R lec"
  unfolding jacobian_loop_def
  by (rule for_loop_invariant [where P = "\<lambda>l. lec_R l = lec_R lec"]) (simp_all add: Let_def)

lemma residual_advection_formula:
  "residual_advection hc g eqn fl c i =
     (if term_on g eqn (T_ADVECTION hc)
      then (emf_coeff c * EMF fl + conj_coeff c * EMF_conj fl) * phi (bf g eqn) i
             * (detJ (bf g eqn) * h3 (fv g) * wt (fv g)) * etm (pd g) eqn (LOG2_ADVECTION hc)
      else 0)"
  by (simp add: residual_advection_def)

lemma residual_diffusion_formula:
  "residual_diffusion hc g eqn fl c i =
     (if term_on g eqn (T_DIFFUSION hc)
      then - (\<Sum>p<VIM g. \<Sum>q<VIM g.
                of_int (permute p q (dir fl)) * grad_phi (bf g eqn) i p * cross_field c q)
             * (detJ (bf g eqn) * h3 (fv g) * wt (fv g)) * etm (pd g) eqn (LOG2_DIFFUSION hc)
      else 0)"
  by (simp add: residual_diffusion_def for_loop_nested_minus_sum)

lemma assemble_emwave_R:
  assumes "pd_e (pd g) em_eqn \<noteq> 0"
    and "select_field hc (fv g) em_var = Some fl"
    and "select_coeffs hc (fv g) (Acoustic_Frequency (upd g)) (fst (refractive_index g time))
           (fst (extinction_index g time))
           (cpx_permittivity (fst (refractive_index g time)) (fst (extinction_index g time))
              (permittivity g)) em_var = Some c"
  shows "lec_R (lec_out (assemble_emwave hc g lec time em_eqn em_var em_conjvar)) =
           (if Assemble_Residual g then lec_R (residual_loop hc g em_eqn fl c lec) else lec_R lec)"
  using assms by (simp add: assemble_emwave_def Let_def split_def)

lemma residual_loop_J [simp]:
  "lec_J (residual_loop hc g eqn fl c lec) = lec_J lec"
  unfolding residual_loop_def
  by (rule for_loop_invariant [where P = "\<lambda>l. lec_J l = lec_J lec"]) simp_all

subsection \<open>Early returns\<close>

text \<open>
  Claim C6. When the equation is flagged inactive, \<open>pd->e[em_eqn] = 0\<close>,
  \<open>assemble_emwave\<close> returns status 0 and the Local Accumulator is exactly the one it
  was given: every residual entry and every Jacobian entry.
\<close>

theorem emwave_inactive_equation:
  assumes "pd_e (pd g) em_eqn = 0"
  shows "status (assemble_emwave hc g lec time em_eqn em_var em_conjvar) = 0
       \<and> lec_out (assemble_emwave hc g lec time em_eqn em_var em_conjvar) = lec"
  using assms by (simp add: assemble_emwave_def)

theorem emwave_inactive_equation_witness:
  "pd_e (pd (example_globals \<lparr> pd := pd example_globals \<lparr> pd_e := (\<lambda>_. 0) \<rparr> \<rparr>)) 0 = 0
   \<and> status (assemble_emwave example_consts
        (example_globals \<lparr> pd := pd example_globals \<lparr> pd_e := (\<lambda>_. 0) \<rparr> \<rparr>)
        example_lec 0 0 100 103) = 0
   \<and> lec_out (assemble_emwave example_consts
        (example_globals \<lparr> pd := pd example_globals \<lparr> pd_e := (\<lambda>_. 0) \<rparr> \<rparr>)
        example_lec 0 0 100 103) = example_lec"
proof -
  have h: "pd_e (pd (example_globals \<lparr> pd := pd example_globals \<lparr> pd_e := (\<lambda>_. 0) \<rparr> \<rparr>)) 0 = 0"
    by simp
  show ?thesis
    using h emwave_inactive_equation [OF h, of example_consts example_lec 0 100 103] by simp
qed

lemma select_field_None:
  "select_field hc f em_var = None \<longleftrightarrow>
     em_var \<notin> {EM_E1_REAL hc, EM_E1_IMAG hc, EM_E2_REAL hc, EM_E2_IMAG hc, EM_E3_REAL hc,
       EM_E3_IMAG hc, EM_H1_REAL hc, EM_H1_IMAG hc, EM_H2_REAL hc, EM_H2_IMAG hc, EM_H3_REAL hc,
       EM_H3_IMAG hc}"
  by (simp add: select_field_def)

text \<open>
  Claim C7. On an active equation, an \<open>em_var\<close> that is none of the twelve field
  variable identifiers takes the \<open>default\<close> branch of the first \<open>switch\<close>: the
  fatal-error handler is raised, the status is \<open>-1\<close>, hence negative and not the
  success value, and the Local Accumulator is exactly the one the call was given.
\<close>

theorem emwave_invalid_selector:
  assumes "pd_e (pd g) em_eqn \<noteq> 0"
    and "em_var \<notin> {EM_E1_REAL hc, EM_E1_IMAG hc, EM_E2_REAL hc, EM_E2_IMAG hc, EM_E3_REAL hc,
       EM_E3_IMAG hc, EM_H1_REAL hc, EM_H1_IMAG hc, EM_H2_REAL hc, EM_H2_IMAG hc, EM_H3_REAL hc,
       EM_H3_IMAG hc}"
  shows "status (assemble_emwave hc g lec time em_eqn em_var em_conjvar) = - 1
       \<and> status (assemble_emwave hc g lec time em_eqn em_var em_conjvar) < 0
       \<and> lec_out (assemble_emwave hc g lec time em_eqn em_var em_conjvar) = lec
       \<and> EH_raised (assemble_emwave hc g lec time em_eqn em_var em_conjvar)
           = Some ''Invalid EM variable name.''"
proof -
  have "select_field hc (fv g) em_var = None"
    using assms(2) by (simp only: select_field_None not_False_eq_True)
  then show ?thesis
    using assms(1) by (simp add: assemble_emwave_def Let_def split_def)
qed


theorem emwave_invalid_selector_witness:
  "pd_e (pd example_globals) 0 \<noteq> 0
   \<and> (7::int) \<notin> {EM_E1_REAL example_consts, EM_E1_IMAG example_consts, EM_E2_REAL example_consts,
       EM_E2_IMAG example_consts, EM_E3_REAL example_consts, EM_E3_IMAG example_consts,
       EM_H1_REAL example_consts, EM_H1_IMAG example_consts, EM_H2_REAL example_consts,
       EM_H2_IMAG example_consts, EM_H3_REAL example_consts, EM_H3_IMAG example_consts}
   \<and> status (assemble_emwave example_consts example_globals example_lec 0 0 7 8) = - 1
   \<and> lec_out (assemble_emwave example_consts example_globals example_lec 0 0 7 8) = example_lec"
proof -
  have a: "pd_e (pd example_globals) 0 \<noteq> 0"
    by (simp add: example_globals_def)
  have b: "(7::int) \<notin> {EM_E1_REAL example_consts, EM_E1_IMAG example_consts, EM_E2_REAL example_consts,
       EM_E2_IMAG example_consts, EM_E3_REAL example_consts, EM_E3_IMAG example_consts,
       EM_H1_REAL example_consts, EM_H1_IMAG example_consts, EM_H2_REAL example_consts,
       EM_H2_IMAG example_consts, EM_H3_REAL example_consts, EM_H3_IMAG example_consts}"
    by (simp add: example_consts_def)
  show ?thesis
    using a b emwave_invalid_selector [OF a b, of example_lec 0 8] by simp
qed

subsection \<open>Residual\<close>

lemma example_term_on:
  "term_on example_globals eqn (T_ADVECTION example_consts)"
  "term_on example_globals eqn (T_DIFFUSION example_consts)"
  "term_on example_xfem_globals eqn (T_ADVECTION example_consts)"
  "term_on example_xfem_globals eqn (T_DIFFUSION example_consts)"
  by (simp_all add: term_on_def example_globals_def example_xfem_globals_def example_consts_def)

lemma example_select_H3_REAL:
  "select_field example_consts example_fv 108 = Some \<lparr>EMF = 0, EMF_conj = 0, dir = 2\<rparr>"
  "select_coeffs example_consts example_fv 1 1 0 (cpx_permittivity 1 0 1) 108 =
     Some \<lparr> emf_coeff = 0, conj_coeff = - 1 * mag_permeability,
            emf_coeff_dn = Fin 0, emf_coeff_dk = Fin 0, conj_coeff_dn = Fin 0, conj_coeff_dk = Fin 0,
            cross_field_var = 100, cross_field = em_er example_fv \<rparr>"
  by (simp_all add: select_field_def select_coeffs_def example_consts_def example_fv_def)

lemma example_curl_sum:
  "(\<Sum>p<3. \<Sum>q<3. real_of_int (permute p q 2) * grad_phi example_bf 0 p * em_er example_fv q) = 1"
  by (simp add: eval_nat_numeral lessThan_Suc permute_def example_bf_def example_fv_def)

text \<open>
  Claim C4, amended. On an active equation with residual assembly requested and a
  recognised \<open>em_var\<close>, for each local dof \<open>i\<close> that the xfem optimisation does not
  skip, the residual entry of \<open>i\<close> grows by the sum of the advection term
  \<open>(emf_coeff*EMF + conj_coeff*EMF_conj)*phi_i\<close> and the diffusion term
  \<open>- Sum_{p,q < VIM} permute(p,q,dir)*grad_phi_i[p]*cross_field[q]\<close>, each scaled by
  \<open>det_J*h3*wt\<close> and by its term multiplier, and each zero when its term is not active
  for the equation. The entry of a dof that the xfem optimisation skips is left as it was.
\<close>

theorem emwave_residual_entry:
  assumes "pd_e (pd g) em_eqn \<noteq> 0" and "Assemble_Residual g"
    and "select_field hc (fv g) em_var = Some fl"
    and "select_coeffs hc (fv g) (Acoustic_Frequency (upd g)) (fst (refractive_index g time))
           (fst (extinction_index g time))
           (cpx_permittivity (fst (refractive_index g time)) (fst (extinction_index g time))
              (permittivity g)) em_var = Some c"
    and "i < dof g em_eqn"
  shows "lec_R (lec_out (assemble_emwave hc g lec time em_eqn em_var em_conjvar))
           (ep (upd g) em_eqn, i) =
     (if xfem_skip g em_eqn i then lec_R lec (ep (upd g) em_eqn, i)
      else lec_R lec (ep (upd g) em_eqn, i)
           + Fin ((if term_on g em_eqn (T_ADVECTION hc)
                   then (emf_coeff c * EMF fl + conj_coeff c * EMF_conj fl) * phi (bf g em_eqn) i
                          * (detJ (bf g em_eqn) * h3 (fv g) * wt (fv g))
                          * etm (pd g) em_eqn (LOG2_ADVECTION hc)
                   else 0)
                + (if term_on g em_eqn (T_DIFFUSION hc)
                   then - (\<Sum>p<VIM g. \<Sum>q<VIM g.
                             of_int (permute p q (dir fl)) * grad_phi (bf g em_eqn) i p
                               * cross_field c q)
                          * (detJ (bf g em_eqn) * h3 (fv g) * wt (fv g))
                          * etm (pd g) em_eqn (LOG2_DIFFUSION hc)
                   else 0)))"
proof -
  have "lec_R (lec_out (assemble_emwave hc g lec time em_eqn em_var em_conjvar))
          = lec_R (residual_loop hc g em_eqn fl c lec)"
    using assms(2) by (simp only: assemble_emwave_R [OF assms(1,3,4)] if_True)
  then show ?thesis
    using assms(5)
    by (simp add: residual_loop_R residual_advection_formula residual_diffusion_formula)
qed

theorem emwave_residual_entry_witness:
  "pd_e (pd example_globals) 0 \<noteq> 0 \<and> Assemble_Residual example_globals
   \<and> select_field example_consts (fv example_globals) 108 = Some \<lparr>EMF = 0, EMF_conj = 0, dir = 2\<rparr>
   \<and> (0::nat) < dof example_globals 0
   \<and> \<not> xfem_skip example_globals 0 0
   \<and> lec_R (lec_out (assemble_emwave example_consts example_globals example_lec 0 0 108 111)) (0, 0)
       = Fin (- 1)"
proof -
  have a: "pd_e (pd example_globals) 0 \<noteq> 0" and r: "Assemble_Residual example_globals"
    and d: "(0::nat) < dof example_globals 0" and x: "\<not> xfem_skip example_globals 0 0"
    by (simp_all add: example_globals_def xfem_skip_def)
  have f: "select_field example_consts (fv example_globals) 108
             = Some \<lparr>EMF = 0, EMF_conj = 0, dir = 2\<rparr>"
    using example_select_H3_REAL(1) by (simp add: example_globals_def)
  have c: "select_coeffs example_consts (fv example_globals)
             (Acoustic_Frequency (upd example_globals)) (fst (refractive_index example_globals 0))
             (fst (extinction_index example_globals 0))
             (cpx_permittivity (fst (refractive_index example_globals 0))
                (fst (extinction_index example_globals 0)) (permittivity example_globals)) 108
           = Some \<lparr> emf_coeff = 0, conj_coeff = - 1 * mag_permeability,
               emf_coeff_dn = Fin 0, emf_coeff_dk = Fin 0, conj_coeff_dn = Fin 0,
               conj_coeff_dk = Fin 0, cross_field_var = 100, cross_field = em_er example_fv \<rparr>"
    using example_select_H3_REAL(2) by (simp add: example_globals_def)
  have g: "VIM example_globals = 3" "bf example_globals 0 = example_bf"
    "detJ example_bf = 1" "h3 (fv example_globals) = 1" "wt (fv example_globals) = 1"
    "etm (pd example_globals) 0 (LOG2_DIFFUSION example_consts) = 1"
    "lec_R example_lec (0, 0) = Fin 0" "ep (upd example_globals) 0 = 0"
    by (simp_all add: example_globals_def example_bf_def example_fv_def example_lec_def)
  show ?thesis
    using a r f d x emwave_residual_entry [OF a r f c d, of example_lec 111]
    by (simp add: example_term_on g example_curl_sum)
qed

text \<open>
  Claim C4 as stated, for every local dof, fails where the xfem optimisation skips a
  dof. On the example element with \<open>em_var = EM_H3_REAL\<close> the claimed increment of the
  entry of dof 0 is \<open>-1\<close> (no advection, curl term \<open>-1\<close>); with the dof extended and
  inactive the function executes \<open>continue\<close> and the entry stays 0.
\<close>

theorem emwave_residual_xfem_counterexample:
  "(0::nat) < dof example_xfem_globals 0
   \<and> xfem_skip example_xfem_globals 0 0
   \<and> lec_R example_lec (0, 0) = Fin 0
   \<and> lec_R (lec_out (assemble_emwave example_consts example_xfem_globals example_lec 0 0 108 111))
        (0, 0) = Fin 0
   \<and> select_field example_consts (fv example_xfem_globals) 108
        = Some \<lparr>EMF = 0, EMF_conj = 0, dir = 2\<rparr>
   \<and> lec_R example_lec (0, 0)
        + Fin ((0 * 0 + (- 1 * mag_permeability) * 0) * phi example_bf 0 * (1 * 1 * 1) * 1
              + - (\<Sum>p<3. \<Sum>q<3. real_of_int (permute p q 2) * grad_phi example_bf 0 p
                                     * em_er example_fv q) * (1 * 1 * 1) * 1)
        = Fin (- 1)"
proof -
  have x: "xfem_skip example_xfem_globals 0 0" and d: "(0::nat) < dof example_xfem_globals 0"
    by (simp_all add: xfem_skip_def example_xfem_globals_def example_globals_def)
  have f: "select_field example_consts (fv example_xfem_globals) 108
             = Some \<lparr>EMF = 0, EMF_conj = 0, dir = 2\<rparr>"
    using example_select_H3_REAL(1) by (simp add: example_xfem_globals_def example_globals_def)
  have c: "select_coeffs example_consts (fv example_xfem_globals)
             (Acoustic_Frequency (upd example_xfem_globals))
             (fst (refractive_index example_xfem_globals 0))
             (fst (extinction_index example_xfem_globals 0))
             (cpx_permittivity (fst (refractive_index example_xfem_globals 0))
                (fst (extinction_index example_xfem_globals 0)) (permittivity example_xfem_globals)) 108
           = Some \<lparr> emf_coeff = 0, conj_coeff = - 1 * mag_permeability,
               emf_coeff_dn = Fin 0, emf_coeff_dk = Fin 0, conj_coeff_dn = Fin 0,
               conj_coeff_dk = Fin 0, cross_field_var = 100, cross_field = em_er example_fv \<rparr>"
    using example_select_H3_REAL(2) by (simp add: example_xfem_globals_def example_globals_def)
  have a: "pd_e (pd example_xfem_globals) 0 \<noteq> 0"
    by (simp add: example_xfem_globals_def example_globals_def)
  have r0: "lec_R example_lec (0, 0) = Fin 0"
    by (simp add: example_lec_def)
  have e: "ep (upd example_xfem_globals) 0 = 0" "Assemble_Residual example_xfem_globals"
    by (simp_all add: example_xfem_globals_def example_globals_def)
  have out: "lec_R (lec_out (assemble_emwave example_consts example_xfem_globals example_lec 0 0 108 111))
        (0, 0) = Fin 0"
    using x d r0 e
    by (simp add: assemble_emwave_R [OF a f c] residual_loop_R)
  show ?thesis
    using x d r0 out f by (simp add: example_curl_sum)
qed

subsection \<open>The sensitivities to the refractive index and the extinction coefficient\<close>

text \<open>
  A Jacobian entry is only ever added to. Once an entry is not a finite number it stays
  so, and an entry that receives the chain-rule factor of a sensitivity that is not a
  finite number is not a finite number.
\<close>

lemma chain_rule_NonFin:
  assumes "emf_coeff_dn c = NonFin \<or> emf_coeff_dk c = NonFin
         \<or> conj_coeff_dn c = NonFin \<or> conj_coeff_dk c = NonFin"
  shows "chain_rule fl c dn dk = NonFin"
  using assms by (auto simp: chain_rule_def)

lemma J_add_keeps_NonFin:
  "lec_J lec idx = NonFin \<Longrightarrow> lec_J (J_add jdx x lec) idx = NonFin"
  by auto

lemma J_add_NonFin: "lec_J (J_add idx NonFin lec) idx = NonFin"
  by simp

lemma jacobian_blocks_keep_NonFin:
  assumes "lec_J lec idx = NonFin"
  shows "lec_J (jacobian_field hc g eqn var coeff i lec) idx = NonFin"
    and "lec_J (jacobian_cross_field hc g eqn fl c i lec) idx = NonFin"
    and "lec_J (jacobian_T hc g eqn fl c d_n d_k i lec) idx = NonFin"
    and "lec_J (jacobian_mesh hc g eqn fl c d_n d_k i lec) idx = NonFin"
    and "lec_J (jacobian_c hc g eqn fl c d_n d_k i lec) idx = NonFin"
  unfolding jacobian_field_def jacobian_cross_field_def jacobian_T_def jacobian_mesh_def
    jacobian_c_def Let_def
  using assms
  by (auto intro!: for_loop_invariant [where P = "\<lambda>l. lec_J l idx = NonFin"])

lemma jacobian_T_NonFin:
  assumes "chain_rule fl c (d_T d_n j) (d_T d_k j) = NonFin"
    and "term_on g eqn (T_ADVECTION hc)"
    and "pd_v (pd g) (TEMPERATURE hc) \<noteq> 0"
    and "j < dof g (TEMPERATURE hc)"
  shows "lec_J (jacobian_T hc g eqn fl c d_n d_k i lec)
           (ep (upd g) eqn, vp (upd g) (TEMPERATURE hc), i, j) = NonFin"
  unfolding jacobian_T_def Let_def
  using assms
  by (auto intro!: for_loop_establish
        [where P = "\<lambda>l. lec_J l (ep (upd g) eqn, vp (upd g) (TEMPERATURE hc), i, j) = NonFin"
           and b = j])

lemma mesh_advection_NonFin:
  assumes "chain_rule fl c (d_X d_n b j) (d_X d_k b j) = NonFin"
    and "term_on g eqn (T_ADVECTION hc)"
  shows "mesh_advection hc g eqn fl c d_n d_k i b var j = NonFin"
  using assms by (simp add: mesh_advection_def Let_def)

lemma jacobian_mesh_NonFin:
  assumes "chain_rule fl c (d_X d_n b j) (d_X d_k b j) = NonFin"
    and "term_on g eqn (T_ADVECTION hc)"
    and "b < Num_Dim (pd g)"
    and "pd_v (pd g) (MESH_DISPLACEMENT1 hc + int b) \<noteq> 0"
    and "j < dof g (MESH_DISPLACEMENT1 hc + int b)"
  shows "lec_J (jacobian_mesh hc g eqn fl c d_n d_k i lec)
           (ep (upd g) eqn, vp (upd g) (MESH_DISPLACEMENT1 hc + int b), i, j) = NonFin"
  unfolding jacobian_mesh_def
proof (rule for_loop_establish [where b = b])
  show "b < Num_Dim (pd g)"
    by (rule assms(3))
next
  fix s :: Local_Element_Contribution
  show "lec_J (let var = MESH_DISPLACEMENT1 hc + int b in
          if pd_v (pd g) var \<noteq> 0 then
            for_loop (dof g var) (\<lambda>j.
              J_add (ep (upd g) eqn, vp (upd g) var, i, j)
                (mesh_advection hc g eqn fl c d_n d_k i b var j
                 + Fin (mesh_diffusion hc g eqn i b var j))) s
          else s)
         (ep (upd g) eqn, vp (upd g) (MESH_DISPLACEMENT1 hc + int b), i, j) = NonFin"
    using assms(4,5) mesh_advection_NonFin [OF assms(1,2)]
    by (auto simp: Let_def intro!: for_loop_establish
        [where P = "\<lambda>l. lec_J l (ep (upd g) eqn, vp (upd g) (MESH_DISPLACEMENT1 hc + int b), i, j) = NonFin"
           and b = j])
next
  fix b' and s :: Local_Element_Contribution
  assume "lec_J s (ep (upd g) eqn, vp (upd g) (MESH_DISPLACEMENT1 hc + int b), i, j) = NonFin"
  then show "lec_J (let var = MESH_DISPLACEMENT1 hc + int b' in
          if pd_v (pd g) var \<noteq> 0 then
            for_loop (dof g var) (\<lambda>j.
              J_add (ep (upd g) eqn, vp (upd g) var, i, j)
                (mesh_advection hc g eqn fl c d_n d_k i b' var j
                 + Fin (mesh_diffusion hc g eqn i b' var j))) s
          else s)
         (ep (upd g) eqn, vp (upd g) (MESH_DISPLACEMENT1 hc + int b), i, j) = NonFin"
    by (auto simp: Let_def intro!: for_loop_invariant
        [where P = "\<lambda>l. lec_J l (ep (upd g) eqn, vp (upd g) (MESH_DISPLACEMENT1 hc + int b), i, j) = NonFin"])
qed

lemma jacobian_c_NonFin:
  assumes "chain_rule fl c (d_C d_n w j) (d_C d_k w j) = NonFin"
    and "term_on g eqn (T_ADVECTION hc)"
    and "pd_e (pd g) eqn \<noteq> 0"
    and "pd_v (pd g) (MASS_FRACTION hc) \<noteq> 0"
    and "w < Num_Species_Eqn (pd g)"
    and "j < dof g (MASS_FRACTION hc)"
  shows "lec_J (jacobian_c hc g eqn fl c d_n d_k i lec)
           (ep (upd g) eqn, MAX_PROB_VAR hc + int w, i, j) = NonFin"
proof -
  let ?P = "\<lambda>l. lec_J l (ep (upd g) eqn, MAX_PROB_VAR hc + int w, i, j) = NonFin"
  have "?P (for_loop (Num_Species_Eqn (pd g)) (\<lambda>w.
          for_loop (dof g (MASS_FRACTION hc)) (\<lambda>j.
            J_add (ep (upd g) eqn, MAX_PROB_VAR hc + int w, i, j)
              (if term_on g eqn (T_ADVECTION hc) then
                 Fin (phi (bf g eqn) i) * chain_rule fl c (d_C d_n w j) (d_C d_k w j)
                   * Fin (detJ (bf g eqn) * wt (fv g))
                   * Fin (h3 (fv g)) * Fin (etm (pd g) eqn (LOG2_ADVECTION hc))
               else Fin 0))) lec)"
  proof (rule for_loop_establish [where b = w])
    show "w < Num_Species_Eqn (pd g)"
      by (rule assms(5))
  next
    fix s :: Local_Element_Contribution
    show "?P (for_loop (dof g (MASS_FRACTION hc)) (\<lambda>j.
            J_add (ep (upd g) eqn, MAX_PROB_VAR hc + int w, i, j)
              (if term_on g eqn (T_ADVECTION hc) then
                 Fin (phi (bf g eqn) i) * chain_rule fl c (d_C d_n w j) (d_C d_k w j)
                   * Fin (detJ (bf g eqn) * wt (fv g))
                   * Fin (h3 (fv g)) * Fin (etm (pd g) eqn (LOG2_ADVECTION hc))
               else Fin 0)) s)"
      using assms(1,2,6)
      by (auto intro!: for_loop_establish [where P = ?P and b = j])
  next
    fix w' and s :: Local_Element_Contribution
    assume "?P s"
    then show "?P (for_loop (dof g (MASS_FRACTION hc)) (\<lambda>j.
            J_add (ep (upd g) eqn, MAX_PROB_VAR hc + int w', i, j)
              (if term_on g eqn (T_ADVECTION hc) then
                 Fin (phi (bf g eqn) i) * chain_rule fl c (d_C d_n w' j) (d_C d_k w' j)
                   * Fin (detJ (bf g eqn) * wt (fv g))
                   * Fin (h3 (fv g)) * Fin (etm (pd g) eqn (LOG2_ADVECTION hc))
               else Fin 0)) s)"
      by (auto intro!: for_loop_invariant [where P = ?P])
  qed
  then show ?thesis
    using assms(3,4) by (simp add: jacobian_c_def Let_def)
qed


lemma jacobian_loop_keeps_NonFin_step:
  assumes "lec_J lec idx = NonFin"
  shows "lec_J (if xfem_skip g eqn i then lec
       else
         let lec = jacobian_field hc g eqn em_var (emf_coeff c) i lec;
             lec = jacobian_field hc g eqn em_conjvar (conj_coeff c) i lec;
             lec = jacobian_cross_field hc g eqn fl c i lec;
             lec = jacobian_T hc g eqn fl c d_n d_k i lec;
             lec = jacobian_mesh hc g eqn fl c d_n d_k i lec
         in jacobian_c hc g eqn fl c d_n d_k i lec) idx = NonFin"
  using assms by (simp add: Let_def jacobian_blocks_keep_NonFin)

lemma jacobian_loop_T_NonFin:
  assumes "chain_rule fl c (d_T d_n j) (d_T d_k j) = NonFin"
    and "term_on g eqn (T_ADVECTION hc)"
    and "i < dof g eqn" and "\<not> xfem_skip g eqn i"
    and "pd_v (pd g) (TEMPERATURE hc) \<noteq> 0"
    and "j < dof g (TEMPERATURE hc)"
  shows "lec_J (jacobian_loop hc g eqn em_var em_conjvar fl c d_n d_k lec)
           (ep (upd g) eqn, vp (upd g) (TEMPERATURE hc), i, j) = NonFin"
  unfolding jacobian_loop_def
proof (rule for_loop_establish [where b = i])
  show "i < dof g eqn"
    by (rule assms(3))
next
  fix s :: Local_Element_Contribution
  show "lec_J (if xfem_skip g eqn i then s
       else
         let lec = jacobian_field hc g eqn em_var (emf_coeff c) i s;
             lec = jacobian_field hc g eqn em_conjvar (conj_coeff c) i lec;
             lec = jacobian_cross_field hc g eqn fl c i lec;
             lec = jacobian_T hc g eqn fl c d_n d_k i lec;
             lec = jacobian_mesh hc g eqn fl c d_n d_k i lec
         in jacobian_c hc g eqn fl c d_n d_k i lec)
       (ep (upd g) eqn, vp (upd g) (TEMPERATURE hc), i, j) = NonFin"
    using assms(4)
    by (simp add: Let_def jacobian_blocks_keep_NonFin(4,5) jacobian_T_NonFin [OF assms(1,2,5,6)])
next
  fix i' and s :: Local_Element_Contribution
  assume "lec_J s (ep (upd g) eqn, vp (upd g) (TEMPERATURE hc), i, j) = NonFin"
  then show "lec_J (if xfem_skip g eqn i' then s
       else
         let lec = jacobian_field hc g eqn em_var (emf_coeff c) i' s;
             lec = jacobian_field hc g eqn em_conjvar (conj_coeff c) i' lec;
             lec = jacobian_cross_field hc g eqn fl c i' lec;
             lec = jacobian_T hc g eqn fl c d_n d_k i' lec;
             lec = jacobian_mesh hc g eqn fl c d_n d_k i' lec
         in jacobian_c hc g eqn fl c d_n d_k i' lec)
       (ep (upd g) eqn, vp (upd g) (TEMPERATURE hc), i, j) = NonFin"
    by (rule jacobian_loop_keeps_NonFin_step)
qed

lemma jacobian_loop_mesh_NonFin:
  assumes "chain_rule fl c (d_X d_n b j) (d_X d_k b j) = NonFin"
    and "term_on g eqn (T_ADVECTION hc)"
    and "i < dof g eqn" and "\<not> xfem_skip g eqn i"
    and "b < Num_Dim (pd g)"
    and "pd_v (pd g) (MESH_DISPLACEMENT1 hc + int b) \<noteq> 0"
    and "j < dof g (MESH_DISPLACEMENT1 hc + int b)"
  shows "lec_J (jacobian_loop hc g eqn em_var em_conjvar fl c d_n d_k lec)
           (ep (upd g) eqn, vp (upd g) (MESH_DISPLACEMENT1 hc + int b), i, j) = NonFin"
  unfolding jacobian_loop_def
proof (rule for_loop_establish [where b = i])
  show "i < dof g eqn"
    by (rule assms(3))
next
  fix s :: Local_Element_Contribution
  show "lec_J (if xfem_skip g eqn i then s
       else
         let lec = jacobian_field hc g eqn em_var (emf_coeff c) i s;
             lec = jacobian_field hc g eqn em_conjvar (conj_coeff c) i lec;
             lec = jacobian_cross_field hc g eqn fl c i lec;
             lec = jacobian_T hc g eqn fl c d_n d_k i lec;
             lec = jacobian_mesh hc g eqn fl c d_n d_k i lec
         in jacobian_c hc g eqn fl c d_n d_k i lec)
       (ep (upd g) eqn, vp (upd g) (MESH_DISPLACEMENT1 hc + int b), i, j) = NonFin"
    using assms(4)
    by (simp add: Let_def jacobian_blocks_keep_NonFin(5) jacobian_mesh_NonFin [OF assms(1,2,5,6,7)])
next
  fix i' and s :: Local_Element_Contribution
  assume "lec_J s (ep (upd g) eqn, vp (upd g) (MESH_DISPLACEMENT1 hc + int b), i, j) = NonFin"
  then show "lec_J (if xfem_skip g eqn i' then s
       else
         let lec = jacobian_field hc g eqn em_var (emf_coeff c) i' s;
             lec = jacobian_field hc g eqn em_conjvar (conj_coeff c) i' lec;
             lec = jacobian_cross_field hc g eqn fl c i' lec;
             lec = jacobian_T hc g eqn fl c d_n d_k i' lec;
             lec = jacobian_mesh hc g eqn fl c d_n d_k i' lec
         in jacobian_c hc g eqn fl c d_n d_k i' lec)
       (ep (upd g) eqn, vp (upd g) (MESH_DISPLACEMENT1 hc + int b), i, j) = NonFin"
    by (rule jacobian_loop_keeps_NonFin_step)
qed

lemma jacobian_loop_c_NonFin:
  assumes "chain_rule fl c (d_C d_n w j) (d_C d_k w j) = NonFin"
    and "term_on g eqn (T_ADVECTION hc)"
    and "i < dof g eqn" and "\<not> xfem_skip g eqn i"
    and "pd_e (pd g) eqn \<noteq> 0"
    and "pd_v (pd g) (MASS_FRACTION hc) \<noteq> 0"
    and "w < Num_Species_Eqn (pd g)"
    and "j < dof g (MASS_FRACTION hc)"
  shows "lec_J (jacobian_loop hc g eqn em_var em_conjvar fl c d_n d_k lec)
           (ep (upd g) eqn, MAX_PROB_VAR hc + int w, i, j) = NonFin"
  unfolding jacobian_loop_def
proof (rule for_loop_establish [where b = i])
  show "i < dof g eqn"
    by (rule assms(3))
next
  fix s :: Local_Element_Contribution
  show "lec_J (if xfem_skip g eqn i then s
       else
         let lec = jacobian_field hc g eqn em_var (emf_coeff c) i s;
             lec = jacobian_field hc g eqn em_conjvar (conj_coeff c) i lec;
             lec = jacobian_cross_field hc g eqn fl c i lec;
             lec = jacobian_T hc g eqn fl c d_n d_k i lec;
             lec = jacobian_mesh hc g eqn fl c d_n d_k i lec
         in jacobian_c hc g eqn fl c d_n d_k i lec)
       (ep (upd g) eqn, MAX_PROB_VAR hc + int w, i, j) = NonFin"
    using assms(4)
    by (simp add: Let_def jacobian_c_NonFin [OF assms(1,2,5,6,7,8)])
next
  fix i' and s :: Local_Element_Contribution
  assume "lec_J s (ep (upd g) eqn, MAX_PROB_VAR hc + int w, i, j) = NonFin"
  then show "lec_J (if xfem_skip g eqn i' then s
       else
         let lec = jacobian_field hc g eqn em_var (emf_coeff c) i' s;
             lec = jacobian_field hc g eqn em_conjvar (conj_coeff c) i' lec;
             lec = jacobian_cross_field hc g eqn fl c i' lec;
             lec = jacobian_T hc g eqn fl c d_n d_k i' lec;
             lec = jacobian_mesh hc g eqn fl c d_n d_k i' lec
         in jacobian_c hc g eqn fl c d_n d_k i' lec)
       (ep (upd g) eqn, MAX_PROB_VAR hc + int w, i, j) = NonFin"
    by (rule jacobian_loop_keeps_NonFin_step)
qed

lemma assemble_emwave_J:
  assumes "pd_e (pd g) em_eqn \<noteq> 0"
    and "select_field hc (fv g) em_var = Some fl"
    and "select_coeffs hc (fv g) (Acoustic_Frequency (upd g)) (fst (refractive_index g time))
           (fst (extinction_index g time))
           (cpx_permittivity (fst (refractive_index g time)) (fst (extinction_index g time))
              (permittivity g)) em_var = Some c"
    and "Assemble_Jacobian g"
  shows "lec_out (assemble_emwave hc g lec time em_eqn em_var em_conjvar) =
           jacobian_loop hc g em_eqn em_var em_conjvar fl c
             (snd (refractive_index g time)) (snd (extinction_index g time))
             (if Assemble_Residual g then residual_loop hc g em_eqn fl c lec else lec)"
  using assms by (simp add: assemble_emwave_def Let_def split_def)

lemma select_coeffs_E:
  assumes "em_var \<in> {EM_E1_REAL hc, EM_E2_REAL hc, EM_E3_REAL hc,
                      EM_E1_IMAG hc, EM_E2_IMAG hc, EM_E3_IMAG hc}"
    and "select_coeffs hc f omega n k eps em_var = Some c"
  shows "emf_coeff_dn c = idiv (Fin (emf_coeff c)) (Fin n)"
    and "emf_coeff_dk c = idiv (Fin (emf_coeff c)) (Fin k)"
    and "conj_coeff_dn c = idiv (Fin (conj_coeff c)) (Fin n)"
    and "conj_coeff_dk c = idiv (Fin (conj_coeff c)) (Fin k)
         \<or> conj_coeff_dk c = idiv (Fin (- conj_coeff c)) (Fin k)"
  using assms by (auto simp: select_coeffs_def split: if_splits)

lemma example_select_E1_REAL:
  "select_field example_consts example_fv 100 = Some \<lparr>EMF = 0, EMF_conj = 0, dir = 0\<rparr>"
  "select_coeffs example_consts example_fv 1 1 0 (cpx_permittivity 1 0 1) 100 =
     Some \<lparr> emf_coeff = 0, conj_coeff = 1,
            emf_coeff_dn = Fin 0, emf_coeff_dk = NonFin, conj_coeff_dn = Fin 1, conj_coeff_dk = NonFin,
            cross_field_var = 106, cross_field = em_hr example_fv \<rparr>"
  by (simp_all add: select_field_def select_coeffs_def example_consts_def example_fv_def
      cpx_permittivity_vacuum)

text \<open>
  Claim C9. For an E-family \<open>em_var\<close> the four sensitivities are quotients of the
  coefficients (of \<open>conj_coeff\<close> or its negative, for \<open>conj_coeff_dk\<close>) by the refractive
  index \<open>n\<close> and the extinction coefficient \<open>k\<close>, taken without a test of the
  divisor: for \<open>n = 0\<close> the two quotients by \<open>n\<close>, and for \<open>k = 0\<close> the two by
  \<open>k\<close>, are not finite numbers. Then, for every dof \<open>i\<close> that the Jacobian loop
  visits with the advection term active, every entry of the temperature block, of the
  mesh-displacement blocks and of the species blocks of \<open>i\<close> is not a finite number
  after the call.
\<close>

theorem emwave_E_sensitivities_unguarded:
  assumes "em_var \<in> {EM_E1_REAL hc, EM_E2_REAL hc, EM_E3_REAL hc,
                      EM_E1_IMAG hc, EM_E2_IMAG hc, EM_E3_IMAG hc}"
    and "pd_e (pd g) em_eqn \<noteq> 0"
    and "select_field hc (fv g) em_var = Some fl"
    and "select_coeffs hc (fv g) (Acoustic_Frequency (upd g)) (fst (refractive_index g time))
           (fst (extinction_index g time))
           (cpx_permittivity (fst (refractive_index g time)) (fst (extinction_index g time))
              (permittivity g)) em_var = Some c"
  shows "emf_coeff_dn c = idiv (Fin (emf_coeff c)) (Fin (fst (refractive_index g time)))
       \<and> emf_coeff_dk c = idiv (Fin (emf_coeff c)) (Fin (fst (extinction_index g time)))
       \<and> conj_coeff_dn c = idiv (Fin (conj_coeff c)) (Fin (fst (refractive_index g time)))
       \<and> (conj_coeff_dk c = idiv (Fin (conj_coeff c)) (Fin (fst (extinction_index g time)))
          \<or> conj_coeff_dk c = idiv (Fin (- conj_coeff c)) (Fin (fst (extinction_index g time))))
       \<and> (fst (refractive_index g time) = 0
            \<longrightarrow> emf_coeff_dn c = NonFin \<and> conj_coeff_dn c = NonFin)
       \<and> (fst (extinction_index g time) = 0
            \<longrightarrow> emf_coeff_dk c = NonFin \<and> conj_coeff_dk c = NonFin)
       \<and> ((fst (refractive_index g time) = 0 \<or> fst (extinction_index g time) = 0)
            \<and> Assemble_Jacobian g \<and> term_on g em_eqn (T_ADVECTION hc)
            \<and> i < dof g em_eqn \<and> \<not> xfem_skip g em_eqn i
          \<longrightarrow> (pd_v (pd g) (TEMPERATURE hc) \<noteq> 0
                \<longrightarrow> (\<forall>j<dof g (TEMPERATURE hc).
                       lec_J (lec_out (assemble_emwave hc g lec time em_eqn em_var em_conjvar))
                         (ep (upd g) em_eqn, vp (upd g) (TEMPERATURE hc), i, j) = NonFin))
              \<and> (\<forall>b<Num_Dim (pd g). pd_v (pd g) (MESH_DISPLACEMENT1 hc + int b) \<noteq> 0
                \<longrightarrow> (\<forall>j<dof g (MESH_DISPLACEMENT1 hc + int b).
                       lec_J (lec_out (assemble_emwave hc g lec time em_eqn em_var em_conjvar))
                         (ep (upd g) em_eqn, vp (upd g) (MESH_DISPLACEMENT1 hc + int b), i, j)
                       = NonFin))
              \<and> (pd_v (pd g) (MASS_FRACTION hc) \<noteq> 0
                \<longrightarrow> (\<forall>w<Num_Species_Eqn (pd g). \<forall>j<dof g (MASS_FRACTION hc).
                       lec_J (lec_out (assemble_emwave hc g lec time em_eqn em_var em_conjvar))
                         (ep (upd g) em_eqn, MAX_PROB_VAR hc + int w, i, j) = NonFin)))"
proof -
  let ?n = "fst (refractive_index g time)" and ?k = "fst (extinction_index g time)"
  note co = select_coeffs_E [OF assms(1,4)]
  have dn: "emf_coeff_dn c = NonFin \<and> conj_coeff_dn c = NonFin" if "?n = 0"
    using co(1,3) that by simp
  have dk: "emf_coeff_dk c = NonFin \<and> conj_coeff_dk c = NonFin" if "?k = 0"
    using co(2,4) that by auto
  have jac: "(pd_v (pd g) (TEMPERATURE hc) \<noteq> 0
                \<longrightarrow> (\<forall>j<dof g (TEMPERATURE hc).
                       lec_J (lec_out (assemble_emwave hc g lec time em_eqn em_var em_conjvar))
                         (ep (upd g) em_eqn, vp (upd g) (TEMPERATURE hc), i, j) = NonFin))
              \<and> (\<forall>b<Num_Dim (pd g). pd_v (pd g) (MESH_DISPLACEMENT1 hc + int b) \<noteq> 0
                \<longrightarrow> (\<forall>j<dof g (MESH_DISPLACEMENT1 hc + int b).
                       lec_J (lec_out (assemble_emwave hc g lec time em_eqn em_var em_conjvar))
                         (ep (upd g) em_eqn, vp (upd g) (MESH_DISPLACEMENT1 hc + int b), i, j)
                       = NonFin))
              \<and> (pd_v (pd g) (MASS_FRACTION hc) \<noteq> 0
                \<longrightarrow> (\<forall>w<Num_Species_Eqn (pd g). \<forall>j<dof g (MASS_FRACTION hc).
                       lec_J (lec_out (assemble_emwave hc g lec time em_eqn em_var em_conjvar))
                         (ep (upd g) em_eqn, MAX_PROB_VAR hc + int w, i, j) = NonFin))"
    if z: "?n = 0 \<or> ?k = 0" and j: "Assemble_Jacobian g"
      and a: "term_on g em_eqn (T_ADVECTION hc)"
      and i: "i < dof g em_eqn" and x: "\<not> xfem_skip g em_eqn i"
  proof -
    have "emf_coeff_dn c = NonFin \<or> emf_coeff_dk c = NonFin
         \<or> conj_coeff_dn c = NonFin \<or> conj_coeff_dk c = NonFin"
      using z dn dk by blast
    then have ch: "chain_rule fl c dn' dk' = NonFin" for dn' dk'
      by (rule chain_rule_NonFin)
    note out = assemble_emwave_J [OF assms(2,3,4) j]
    show ?thesis
      unfolding out
      by (intro conjI impI allI)
        (simp_all add: jacobian_loop_T_NonFin [OF ch a i x]
          jacobian_loop_mesh_NonFin [OF ch a i x]
          jacobian_loop_c_NonFin [OF ch a i x assms(2)])
  qed
  show ?thesis
    using co dn dk jac by blast
qed

theorem emwave_E_sensitivities_unguarded_witness:
  "(100::int) \<in> {EM_E1_REAL example_consts, EM_E2_REAL example_consts, EM_E3_REAL example_consts,
                   EM_E1_IMAG example_consts, EM_E2_IMAG example_consts, EM_E3_IMAG example_consts}
   \<and> pd_e (pd example_coupled_globals) 0 \<noteq> 0
   \<and> fst (refractive_index example_coupled_globals 0) = 1
   \<and> fst (extinction_index example_coupled_globals 0) = 0
   \<and> select_coeffs example_consts (fv example_coupled_globals) 1 1 0 (cpx_permittivity 1 0 1) 100 =
       Some \<lparr> emf_coeff = 0, conj_coeff = 1,
              emf_coeff_dn = Fin 0, emf_coeff_dk = NonFin,
              conj_coeff_dn = Fin 1, conj_coeff_dk = NonFin,
              cross_field_var = 106, cross_field = em_hr example_fv \<rparr>
   \<and> lec_J (lec_out (assemble_emwave example_consts example_coupled_globals example_lec 0 0 100 103))
        (0, 10, 0, 0) = NonFin
   \<and> lec_J (lec_out (assemble_emwave example_consts example_coupled_globals example_lec 0 0 100 103))
        (0, 5, 0, 0) = NonFin
   \<and> lec_J (lec_out (assemble_emwave example_consts example_coupled_globals example_lec 0 0 100 103))
        (0, 200, 0, 0) = NonFin"
proof -
  let ?g = example_coupled_globals
  let ?c = "\<lparr> emf_coeff = 0, conj_coeff = 1,
              emf_coeff_dn = Fin 0, emf_coeff_dk = NonFin,
              conj_coeff_dn = Fin 1, conj_coeff_dk = NonFin,
              cross_field_var = 106, cross_field = em_hr example_fv \<rparr>"
  let ?out = "lec_out (assemble_emwave example_consts ?g example_lec 0 0 100 103)"
  have E: "(100::int) \<in> {EM_E1_REAL example_consts, EM_E2_REAL example_consts,
             EM_E3_REAL example_consts, EM_E1_IMAG example_consts, EM_E2_IMAG example_consts,
             EM_E3_IMAG example_consts}"
    by (simp add: example_consts_def)
  have a: "pd_e (pd ?g) 0 \<noteq> 0"
    by (simp add: example_coupled_globals_def)
  have n: "fst (refractive_index ?g 0) = 1" and k: "fst (extinction_index ?g 0) = 0"
    by (simp_all add: example_coupled_globals_def example_globals_def)
  have f: "select_field example_consts (fv ?g) 100 = Some \<lparr>EMF = 0, EMF_conj = 0, dir = 0\<rparr>"
    using example_select_E1_REAL(1)
    by (simp add: example_coupled_globals_def example_globals_def)
  have c0: "select_coeffs example_consts (fv ?g) 1 1 0 (cpx_permittivity 1 0 1) 100 = Some ?c"
    using example_select_E1_REAL(2)
    by (simp add: example_coupled_globals_def example_globals_def)
  have c: "select_coeffs example_consts (fv ?g) (Acoustic_Frequency (upd ?g))
             (fst (refractive_index ?g 0)) (fst (extinction_index ?g 0))
             (cpx_permittivity (fst (refractive_index ?g 0)) (fst (extinction_index ?g 0))
                (permittivity ?g)) 100 = Some ?c"
    using c0 by (simp add: n k) (simp add: example_coupled_globals_def example_globals_def)
  have pre: "(fst (refractive_index ?g 0) = 0 \<or> fst (extinction_index ?g 0) = 0)
            \<and> Assemble_Jacobian ?g \<and> term_on ?g 0 (T_ADVECTION example_consts)
            \<and> (0::nat) < dof ?g 0 \<and> \<not> xfem_skip ?g 0 0"
    by (simp add: k)
      (simp add: example_coupled_globals_def example_globals_def term_on_def xfem_skip_def
        example_consts_def)
  have act: "pd_v (pd ?g) (TEMPERATURE example_consts) \<noteq> 0"
    "pd_v (pd ?g) (MESH_DISPLACEMENT1 example_consts + int 0) \<noteq> 0"
    "pd_v (pd ?g) (MASS_FRACTION example_consts) \<noteq> 0"
    "(0::nat) < dof ?g (TEMPERATURE example_consts)"
    "(0::nat) < dof ?g (MESH_DISPLACEMENT1 example_consts + int 0)"
    "(0::nat) < dof ?g (MASS_FRACTION example_consts)"
    "(0::nat) < Num_Dim (pd ?g)" "(0::nat) < Num_Species_Eqn (pd ?g)"
    by (simp_all add: example_coupled_globals_def example_globals_def example_consts_def)
  have idx: "ep (upd ?g) 0 = 0" "vp (upd ?g) (TEMPERATURE example_consts) = 10"
    "vp (upd ?g) (MESH_DISPLACEMENT1 example_consts + int 0) = 5"
    "MAX_PROB_VAR example_consts + int 0 = 200"
    by (simp_all add: example_coupled_globals_def example_globals_def example_consts_def)
  note T = emwave_E_sensitivities_unguarded [OF E a f c, of 0 example_lec 103]
  from T pre have J:
    "(pd_v (pd ?g) (TEMPERATURE example_consts) \<noteq> 0
        \<longrightarrow> (\<forall>j<dof ?g (TEMPERATURE example_consts).
               lec_J ?out (ep (upd ?g) 0, vp (upd ?g) (TEMPERATURE example_consts), 0, j) = NonFin))
     \<and> (\<forall>b<Num_Dim (pd ?g). pd_v (pd ?g) (MESH_DISPLACEMENT1 example_consts + int b) \<noteq> 0
        \<longrightarrow> (\<forall>j<dof ?g (MESH_DISPLACEMENT1 example_consts + int b).
               lec_J ?out (ep (upd ?g) 0, vp (upd ?g) (MESH_DISPLACEMENT1 example_consts + int b), 0, j)
               = NonFin))
     \<and> (pd_v (pd ?g) (MASS_FRACTION example_consts) \<noteq> 0
        \<longrightarrow> (\<forall>w<Num_Species_Eqn (pd ?g). \<forall>j<dof ?g (MASS_FRACTION example_consts).
               lec_J ?out (ep (upd ?g) 0, MAX_PROB_VAR example_consts + int w, 0, j) = NonFin))"
    by (elim conjE) (erule mp, intro conjI; assumption)
  have t: "lec_J ?out (ep (upd ?g) 0, vp (upd ?g) (TEMPERATURE example_consts), 0, 0) = NonFin"
    using J act(1,4) by blast
  have m: "lec_J ?out (ep (upd ?g) 0, vp (upd ?g) (MESH_DISPLACEMENT1 example_consts + int 0), 0, 0)
             = NonFin"
    using J act(2,5,7) by blast
  have s: "lec_J ?out (ep (upd ?g) 0, MAX_PROB_VAR example_consts + int 0, 0, 0) = NonFin"
    using J act(3,6,8) by blast
  show ?thesis
    using E a n k c0 t m s unfolding idx by (intro conjI)
qed

subsection \<open>The mesh-displacement block\<close>

text \<open>
  What the four parts \<open>diff_a\<close> to \<open>diff_d\<close> add up to: sums of the components of
  the test-function gradient and of its mesh sensitivity. Neither the permutation symbol
  nor the cross field of the diffusion residual occurs in them, and \<open>diff_b\<close> carries
  no sensitivity at all. The diffusion residual itself vanishes with the cross field.
\<close>

lemma mesh_diffusion_formula:
  "mesh_diffusion hc g eqn i b var j =
     (if term_on g eqn (T_DIFFUSION hc)
      then ((\<Sum>p<Num_Dim (pd g). d_grad_phi_dmesh (bf g eqn) i p b j)
              * (detJ (bf g eqn) * h3 (fv g) * wt (fv g))
            + (\<Sum>p<VIM g. grad_phi_i g eqn i p) * (detJ (bf g eqn) * h3 (fv g) * wt (fv g))
            + (\<Sum>p<Num_Dim (pd g). grad_phi_i g eqn i p)
              * (d_det_J_dm (bf g eqn) b j * h3 (fv g) * wt (fv g))
            + (\<Sum>p<Num_Dim (pd g). grad_phi_i g eqn i p)
              * (detJ (bf g eqn) * (dh3dq (fv g) b * phi (bf g var) j) * wt (fv g)))
           * etm (pd g) eqn (LOG2_DIFFUSION hc)
      else 0)"
proof -
  have s: "for_loop n (\<lambda>p d. d + f p) a = a + (\<Sum>p<n. (f p :: real))" for n f a
    by (induction n) (simp_all add: for_loop_Suc)
  show ?thesis
    by (simp add: mesh_diffusion_def Let_def s)
qed

lemma residual_diffusion_without_field:
  assumes "\<And>q. q < VIM g \<Longrightarrow> cross_field c q = 0"
  shows "residual_diffusion hc g eqn fl c i = 0"
  using assms by (simp add: residual_diffusion_formula)

lemma example_mesh_select_H1_REAL:
  "select_field example_consts (fv example_mesh_globals) 106
     = Some \<lparr>EMF = 0, EMF_conj = 0, dir = 0\<rparr>"
  "select_coeffs example_consts (fv example_mesh_globals)
     (Acoustic_Frequency (upd example_mesh_globals))
     (fst (refractive_index example_mesh_globals 0))
     (fst (extinction_index example_mesh_globals 0))
     (cpx_permittivity (fst (refractive_index example_mesh_globals 0))
        (fst (extinction_index example_mesh_globals 0)) (permittivity example_mesh_globals)) 106
     = Some \<lparr> emf_coeff = 0, conj_coeff = - 1 * mag_permeability,
              emf_coeff_dn = Fin 0, emf_coeff_dk = Fin 0, conj_coeff_dn = Fin 0,
              conj_coeff_dk = Fin 0, cross_field_var = 100, cross_field = (\<lambda>_. 0) \<rparr>"
  by (simp_all add: select_field_def select_coeffs_def example_consts_def example_fv_def
      example_mesh_globals_def example_globals_def)

lemma example_mesh_term_on:
  "\<not> term_on example_mesh_globals 0 (T_ADVECTION example_consts)"
  "term_on example_mesh_globals 0 (T_DIFFUSION example_consts)"
  by (simp_all add: term_on_def example_mesh_globals_def example_globals_def example_consts_def)

lemma example_mesh_diffusion:
  "mesh_diffusion example_consts example_mesh_globals 0 0 0 5 0 = 1"
  by (simp add: mesh_diffusion_formula example_mesh_term_on)
    (simp add: example_mesh_globals_def example_globals_def example_bf_def example_fv_def
      grad_phi_i_def eval_nat_numeral lessThan_Suc)

text \<open>
  On the element of the example below the residual entry stays 0 whatever the basis
  functions, the Jacobian determinant, the volume scale factor and the weight are: it
  does not depend on the geometry.
\<close>

lemma example_mesh_residual_any_geometry:
  "lec_R (lec_out (assemble_emwave example_consts
       (example_mesh_globals \<lparr> bf := B, fv := (fv example_mesh_globals) \<lparr> h3 := H, wt := W \<rparr> \<rparr>)
       example_lec 0 0 106 109)) (0, 0) = Fin 0"
proof -
  let ?g = "example_mesh_globals \<lparr> bf := B, fv := (fv example_mesh_globals) \<lparr> h3 := H, wt := W \<rparr> \<rparr>"
  have a: "pd_e (pd ?g) 0 \<noteq> 0" and r: "Assemble_Residual ?g"
    by (simp_all add: example_mesh_globals_def example_globals_def)
  have f: "select_field example_consts (fv ?g) 106 = Some \<lparr>EMF = 0, EMF_conj = 0, dir = 0\<rparr>"
    by (simp add: select_field_def example_consts_def example_fv_def
        example_mesh_globals_def example_globals_def)
  have c: "select_coeffs example_consts (fv ?g) (Acoustic_Frequency (upd ?g))
     (fst (refractive_index ?g 0)) (fst (extinction_index ?g 0))
     (cpx_permittivity (fst (refractive_index ?g 0)) (fst (extinction_index ?g 0))
        (permittivity ?g)) 106
     = Some \<lparr> emf_coeff = 0, conj_coeff = - 1 * mag_permeability,
              emf_coeff_dn = Fin 0, emf_coeff_dk = Fin 0, conj_coeff_dn = Fin 0,
              conj_coeff_dk = Fin 0, cross_field_var = 100, cross_field = (\<lambda>_. 0) \<rparr>"
    by (simp add: select_coeffs_def example_consts_def example_fv_def
        example_mesh_globals_def example_globals_def)
  have t: "\<not> term_on ?g 0 (T_ADVECTION example_consts)"
    by (simp add: term_on_def example_mesh_globals_def example_globals_def example_consts_def)
  have l: "lec_R example_lec (0, 0) = Fin 0"
    by (simp add: example_lec_def)
  show ?thesis
    using r
    by (simp add: assemble_emwave_R [OF a f c] residual_loop_R l residual_advection_formula
        residual_diffusion_formula t)
qed

text \<open>
  Claim C2, evaluated on the code. The element has the diffusion term alone, no field,
  and a geometry and material that do not depend on the mesh dof: the residual entry of
  dof 0 is 0 for every position of the mesh, so its derivative by the first mesh
  displacement is 0. The call leaves the residual entry at 0 and adds \<open>diff_b = 1\<close> to
  the Jacobian entry for the first mesh displacement.
\<close>

theorem emwave_mesh_jacobian_at_example:
  "lec_R (lec_out (assemble_emwave example_consts example_mesh_globals example_lec 0 0 106 109))
     (0, 0) = Fin 0
   \<and> lec_J (lec_out (assemble_emwave example_consts example_mesh_globals example_lec 0 0 106 109))
       (0, 5, 0, 0) = Fin 1
   \<and> lec_R example_lec (0, 0) = Fin 0
   \<and> lec_J example_lec (0, 5, 0, 0) = Fin 0
   \<and> (\<Sum>p<3. d_grad_phi_dmesh (bf example_mesh_globals 0) 0 p 0 0) = 0
   \<and> d_det_J_dm (bf example_mesh_globals 0) 0 0 = 0
   \<and> dh3dq (fv example_mesh_globals) 0 = 0
   \<and> d_X (snd (refractive_index example_mesh_globals 0)) 0 0 = 0
   \<and> d_X (snd (extinction_index example_mesh_globals 0)) 0 0 = 0"
proof -
  let ?g = example_mesh_globals
  let ?fl = "\<lparr>EMF = 0, EMF_conj = 0, dir = 0\<rparr>"
  let ?c = "\<lparr> emf_coeff = 0, conj_coeff = - 1 * mag_permeability,
              emf_coeff_dn = Fin 0, emf_coeff_dk = Fin 0, conj_coeff_dn = Fin 0,
              conj_coeff_dk = Fin 0, cross_field_var = 100, cross_field = (\<lambda>_. 0::real) \<rparr>"
  have a: "pd_e (pd ?g) 0 \<noteq> 0" and j: "Assemble_Jacobian ?g" and r: "Assemble_Residual ?g"
    by (simp_all add: example_mesh_globals_def example_globals_def)
  note f = example_mesh_select_H1_REAL(1)
  note c = example_mesh_select_H1_REAL(2)
  have g: "dof ?g var = 1" "ep (upd ?g) 0 = 0" "vp (upd ?g) 5 = 5" "\<not> xfem_skip ?g 0 i"
    "Num_Dim (pd ?g) = 3" "Num_Species_Eqn (pd ?g) = 0"
    "pd_v (pd ?g) var = (if var = 5 then 1 else 0)"
    "MESH_DISPLACEMENT1 example_consts = 5" "TEMPERATURE example_consts = 10"
    "MASS_FRACTION example_consts = 20"
    for var i
    by (simp_all add: example_mesh_globals_def example_globals_def xfem_skip_def example_consts_def)
  have l: "lec_R example_lec (0, 0) = Fin 0" "lec_J example_lec (0, 5, 0, 0) = Fin 0"
    by (simp_all add: example_lec_def)
  have R: "lec_R (lec_out (assemble_emwave example_consts ?g example_lec 0 0 106 109)) (0, 0) = Fin 0"
    using r
    by (simp add: assemble_emwave_R [OF a f c] residual_loop_R g l residual_advection_formula
        residual_diffusion_formula example_mesh_term_on)
  have madv: "mesh_advection example_consts ?g 0 fl' c' d_n d_k 0 0 5 0 = Fin 0" for fl' c' d_n d_k
    by (simp add: mesh_advection_def example_mesh_term_on)
  have J: "lec_J (lec_out (assemble_emwave example_consts ?g example_lec 0 0 106 109)) (0, 5, 0, 0)
             = Fin 1"
    unfolding assemble_emwave_J [OF a f c j]
    by (simp add: jacobian_loop_def jacobian_field_def jacobian_cross_field_def jacobian_T_def
        jacobian_mesh_def jacobian_c_def Let_def g for_loop_numeral for_loop_1 madv
        example_mesh_diffusion l)
  have z: "(\<Sum>p<3. d_grad_phi_dmesh (bf ?g 0) 0 p 0 0) = 0" "d_det_J_dm (bf ?g 0) 0 0 = 0"
    "dh3dq (fv ?g) 0 = 0" "d_X (snd (refractive_index ?g 0)) 0 0 = 0"
    "d_X (snd (extinction_index ?g 0)) 0 0 = 0"
    by (simp_all add: example_mesh_globals_def example_globals_def example_bf_def example_fv_def
        no_dependence_def)
  show ?thesis
    using R J l z by (intro conjI)
qed

end
